theory Spec2Isabelle
  imports Complex_Main "HOL-Library.Sublist"
begin

section \<open>JavaScript strings\<close>

text \<open>
  A JavaScript string is modelled as a \<^typ>\<open>string\<close>: the list of its code units, here the
  code units \<open>0x00\<close> to \<open>0xFF\<close>. \<open>String.prototype.trim\<close> and the regular expression class
  \<open>\s\<close> remove the same characters (WhiteSpace and LineTerminator of ECMAScript); in this
  range they are TAB, LF, VT, FF, CR, SPACE and NBSP.
\<close>

definition isWhiteSpace :: "char \<Rightarrow> bool" where
  "isWhiteSpace c \<longleftrightarrow>
     c = CHR 0x09 \<or> c = CHR 0x0A \<or> c = CHR 0x0B \<or> c = CHR 0x0C \<or> c = CHR 0x0D \<or>
     c = CHR 0x20 \<or> c = CHR 0xA0"

definition isLineTerminator :: "char \<Rightarrow> bool" where
  "isLineTerminator c \<longleftrightarrow> c = CHR 0x0A \<or> c = CHR 0x0D"

definition trimStart :: "string \<Rightarrow> string" where
  "trimStart s = dropWhile isWhiteSpace s"

definition trimEnd :: "string \<Rightarrow> string" where
  "trimEnd s = rev (dropWhile isWhiteSpace (rev s))"

definition trim :: "string \<Rightarrow> string" where
  "trim s = trimEnd (trimStart s)"

definition asciiLower :: string where
  "asciiLower = ''abcdefghijklmnopqrstuvwxyz''"

definition asciiUpper :: string where
  "asciiUpper = ''ABCDEFGHIJKLMNOPQRSTUVWXYZ''"

definition latin1Lower :: string where
  "latin1Lower =
     [CHR 0xE0, CHR 0xE1, CHR 0xE2, CHR 0xE3, CHR 0xE4, CHR 0xE5, CHR 0xE6, CHR 0xE7,
      CHR 0xE8, CHR 0xE9, CHR 0xEA, CHR 0xEB, CHR 0xEC, CHR 0xED, CHR 0xEE, CHR 0xEF,
      CHR 0xF0, CHR 0xF1, CHR 0xF2, CHR 0xF3, CHR 0xF4, CHR 0xF5, CHR 0xF6,
      CHR 0xF8, CHR 0xF9, CHR 0xFA, CHR 0xFB, CHR 0xFC, CHR 0xFD, CHR 0xFE]"

definition latin1Upper :: string where
  "latin1Upper =
     [CHR 0xC0, CHR 0xC1, CHR 0xC2, CHR 0xC3, CHR 0xC4, CHR 0xC5, CHR 0xC6, CHR 0xC7,
      CHR 0xC8, CHR 0xC9, CHR 0xCA, CHR 0xCB, CHR 0xCC, CHR 0xCD, CHR 0xCE, CHR 0xCF,
      CHR 0xD0, CHR 0xD1, CHR 0xD2, CHR 0xD3, CHR 0xD4, CHR 0xD5, CHR 0xD6,
      CHR 0xD8, CHR 0xD9, CHR 0xDA, CHR 0xDB, CHR 0xDC, CHR 0xDD, CHR 0xDE]"

text \<open>
  \<open>toUpperCase\<close>: the sharp s (\<open>0xDF\<close>) becomes \<open>SS\<close>. The upper-case forms of \<open>0xB5\<close> and
  \<open>0xFF\<close> lie above \<open>0xFF\<close>; they are kept as they are, which no comparison with an ASCII
  literal can tell apart.
\<close>

definition upperOf :: "char \<Rightarrow> string" where
  "upperOf c =
     (if c = CHR 0xDF then ''SS''
      else case map_of (zip (asciiLower @ latin1Lower) (asciiUpper @ latin1Upper)) c of
             Some u \<Rightarrow> [u]
           | None \<Rightarrow> [c])"

definition toUpperCase :: "string \<Rightarrow> string" where
  "toUpperCase s = concat (map upperOf s)"

definition lowerOf :: "char \<Rightarrow> char" where
  "lowerOf c =
     (case map_of (zip (asciiUpper @ latin1Upper) (asciiLower @ latin1Lower)) c of
        Some l \<Rightarrow> l
      | None \<Rightarrow> c)"

definition toLowerCase :: "string \<Rightarrow> string" where
  "toLowerCase s = map lowerOf s"

definition startsWith :: "string \<Rightarrow> string \<Rightarrow> bool" where
  "startsWith s p \<longleftrightarrow> prefix p s"

definition endsWith :: "string \<Rightarrow> string \<Rightarrow> bool" where
  "endsWith s p \<longleftrightarrow> suffix p s"

text \<open>\<open>indexOf s p\<close> is \<open>s.indexOf(p)\<close>, with \<open>None\<close> for \<open>-1\<close>.\<close>

fun indexOf :: "string \<Rightarrow> string \<Rightarrow> nat option" where
  "indexOf [] p = (if p = [] then Some 0 else None)"
| "indexOf (c # cs) p =
     (if prefix p (c # cs) then Some 0 else map_option Suc (indexOf cs p))"

text \<open>\<open>lastIndexOf s p\<close> is \<open>s.lastIndexOf(p)\<close>: the greatest index where \<open>p\<close> starts.\<close>

fun lastIndexOf :: "string \<Rightarrow> string \<Rightarrow> nat option" where
  "lastIndexOf [] p = (if p = [] then Some 0 else None)"
| "lastIndexOf (c # cs) p =
     (case lastIndexOf cs p of
        Some i \<Rightarrow> Some (Suc i)
      | None \<Rightarrow> if prefix p (c # cs) then Some 0 else None)"

definition includesStr :: "string \<Rightarrow> string \<Rightarrow> bool" where
  "includesStr s p \<longleftrightarrow> indexOf s p \<noteq> None"

text \<open>\<open>s.substring(a, b)\<close> for \<open>a \<le> b\<close> (the arguments are swapped otherwise).\<close>

definition substring :: "string \<Rightarrow> nat \<Rightarrow> nat \<Rightarrow> string" where
  "substring s a b = (if a \<le> b then take (b - a) (drop a s) else take (a - b) (drop b s))"

text \<open>
  \<open>s.split(sep)\<close> for a non-empty separator. \<open>splitAux sep acc k s\<close> reads \<open>s\<close> from the left:
  \<open>acc\<close> is the current piece, reversed, and \<open>k\<close> the number of characters of a separator
  still to skip.
\<close>

fun splitAux :: "string \<Rightarrow> string \<Rightarrow> nat \<Rightarrow> string \<Rightarrow> string list" where
  "splitAux sep acc k [] = [rev acc]"
| "splitAux sep acc (Suc k) (c # cs) = splitAux sep acc k cs"
| "splitAux sep acc 0 (c # cs) =
     (if prefix sep (c # cs) then rev acc # splitAux sep [] (length sep - 1) cs
      else splitAux sep (c # acc) 0 cs)"

definition split :: "string \<Rightarrow> string \<Rightarrow> string list" where
  "split s sep = splitAux sep [] 0 s"

text \<open>
  \<open>s.replace(search, repl)\<close> with a string pattern replaces the first occurrence of \<open>search\<close>.
  The replacement is a template: \<open>$$\<close> stands for a dollar, \<open>$&\<close> for the matched text,
  \<open>$`\<close> for the text before the match and \<open>$'\<close> for the text after it; with a string
  pattern there are no groups, so every other \<open>$\<close> stands for itself
  (\<open>getSubstitution matched before after template\<close>).
\<close>

fun getSubstitution :: "string \<Rightarrow> string \<Rightarrow> string \<Rightarrow> string \<Rightarrow> string" where
  "getSubstitution m p f [] = []"
| "getSubstitution m p f [c] = [c]"
| "getSubstitution m p f (c # d # rest) =
     (if c = CHR ''$'' then
        (if d = CHR ''$'' then CHR ''$'' # getSubstitution m p f rest
         else if d = CHR ''&'' then m @ getSubstitution m p f rest
         else if d = CHR 0x60 then p @ getSubstitution m p f rest
         else if d = CHR 0x27 then f @ getSubstitution m p f rest
         else c # getSubstitution m p f (d # rest))
      else c # getSubstitution m p f (d # rest))"

definition replaceString :: "string \<Rightarrow> string \<Rightarrow> string \<Rightarrow> string" where
  "replaceString s search repl =
     (case indexOf s search of
        None \<Rightarrow> s
      | Some pos \<Rightarrow>
          take pos s
          @ getSubstitution search (take pos s) (drop (pos + length search) s) repl
          @ drop (pos + length search) s)"

text \<open>\<open>xs[i]\<close>, with \<open>None\<close> for \<open>undefined\<close>.\<close>

fun nthOpt :: "'a list \<Rightarrow> nat \<Rightarrow> 'a option" where
  "nthOpt [] i = None"
| "nthOpt (x # xs) 0 = Some x"
| "nthOpt (x # xs) (Suc i) = nthOpt xs i"

text \<open>\<open>x || d\<close> for a string or \<open>undefined\<close> on the left.\<close>

definition orElse :: "string option \<Rightarrow> string \<Rightarrow> string" where
  "orElse x d = (case x of None \<Rightarrow> d | Some s \<Rightarrow> if s = [] then d else s)"

definition nl :: char where
  "nl = CHR 0x0A"

section \<open>Regular expressions\<close>

text \<open>
  The regular expressions of the source, as syntax trees, and a backtracking matcher with
  continuations in the style of the ECMAScript specification. A quantifier of the source
  is always applied to a character class (\<open>Rep greedy min max class\<close>) or is the greedy
  \<open>?\<close> (\<open>Opt\<close>); \<open>Bol\<close> and \<open>Eol\<close> are \<open>^\<close> and \<open>$\<close>.
\<close>

datatype cls =
    COneOf string
  | CNoneOf string
  | CSpace
  | CDot
  | CAny

datatype re =
    Lit string
  | Rep bool nat "nat option" cls
  | Opt re
  | Seq re re
  | Alt re re
  | Grp nat re
  | Bol
  | Eol

text \<open>
  Canonicalize of the \<open>i\<close> flag. The patterns of the source are ASCII, and a character
  above \<open>0x7F\<close> never canonicalizes to an ASCII one.
\<close>

definition canonicalize :: "bool \<Rightarrow> char \<Rightarrow> char" where
  "canonicalize ic c =
     (if ic then (case map_of (zip (asciiLower @ latin1Lower) (asciiUpper @ latin1Upper)) c of
                    Some u \<Rightarrow> u
                  | None \<Rightarrow> c)
      else c)"

fun clsMem :: "bool \<Rightarrow> cls \<Rightarrow> char \<Rightarrow> bool" where
  "clsMem ic (COneOf cs) c \<longleftrightarrow> canonicalize ic c \<in> canonicalize ic ` set cs"
| "clsMem ic (CNoneOf cs) c \<longleftrightarrow> canonicalize ic c \<notin> canonicalize ic ` set cs"
| "clsMem ic CSpace c \<longleftrightarrow> isWhiteSpace c"
| "clsMem ic CDot c \<longleftrightarrow> \<not> isLineTerminator c"
| "clsMem ic CAny c \<longleftrightarrow> True"

text \<open>
  A matcher state: the input before the current position (reversed), the input from the
  current position on, and the captures.
\<close>

type_synonym mstate = "string \<times> string \<times> (nat \<Rightarrow> string option)"

fun litMatch :: "bool \<Rightarrow> string \<Rightarrow> string \<Rightarrow> string \<Rightarrow> (string \<times> string) option" where
  "litMatch ic [] b r = Some (b, r)"
| "litMatch ic (p # ps) b [] = None"
| "litMatch ic (p # ps) b (c # cs) =
     (if canonicalize ic p = canonicalize ic c then litMatch ic ps (c # b) cs else None)"

text \<open>
  \<open>rep greedy p lo hi k b caps r\<close>: between \<open>lo\<close> and \<open>hi\<close> characters satisfying \<open>p\<close>, then the
  continuation \<open>k\<close>. A greedy quantifier tries one more character first, a lazy one tries
  the continuation first.
\<close>

fun rep :: "bool \<Rightarrow> (char \<Rightarrow> bool) \<Rightarrow> nat \<Rightarrow> nat option \<Rightarrow> (mstate \<Rightarrow> mstate option) \<Rightarrow>
    string \<Rightarrow> (nat \<Rightarrow> string option) \<Rightarrow> string \<Rightarrow> mstate option" where
  "rep greedy p lo hi k b caps [] = (if lo = 0 then k (b, [], caps) else None)"
| "rep greedy p lo hi k b caps (c # cs) =
     (if 0 < lo then
        (if p c \<and> hi \<noteq> Some 0
         then rep greedy p (lo - 1) (map_option (\<lambda>h. h - 1) hi) k (c # b) caps cs
         else None)
      else if greedy then
        (case (if p c \<and> hi \<noteq> Some 0
               then rep greedy p (lo - 1) (map_option (\<lambda>h. h - 1) hi) k (c # b) caps cs
               else None) of
           Some res \<Rightarrow> Some res
         | None \<Rightarrow> k (b, c # cs, caps))
      else
        (case k (b, c # cs, caps) of
           Some res \<Rightarrow> Some res
         | None \<Rightarrow>
             (if p c \<and> hi \<noteq> Some 0
              then rep greedy p (lo - 1) (map_option (\<lambda>h. h - 1) hi) k (c # b) caps cs
              else None)))"

text \<open>\<open>mt r ic ml k st\<close>: match \<open>r\<close> at state \<open>st\<close> under the flags \<open>i\<close> and \<open>m\<close>, then \<open>k\<close>.\<close>

primrec mt :: "re \<Rightarrow> bool \<Rightarrow> bool \<Rightarrow> (mstate \<Rightarrow> mstate option) \<Rightarrow> mstate \<Rightarrow> mstate option" where
  "mt (Lit w) ic ml k st =
     (case st of (b, r, caps) \<Rightarrow>
        (case litMatch ic w b r of None \<Rightarrow> None | Some (b', r') \<Rightarrow> k (b', r', caps)))"
| "mt (Rep greedy lo hi cl) ic ml k st =
     (case st of (b, r, caps) \<Rightarrow> rep greedy (clsMem ic cl) lo hi k b caps r)"
| "mt (Opt a) ic ml k st =
     (case mt a ic ml k st of Some res \<Rightarrow> Some res | None \<Rightarrow> k st)"
| "mt (Seq a c) ic ml k st = mt a ic ml (\<lambda>st'. mt c ic ml k st') st"
| "mt (Alt a c) ic ml k st =
     (case mt a ic ml k st of Some res \<Rightarrow> Some res | None \<Rightarrow> mt c ic ml k st)"
| "mt (Grp n a) ic ml k st =
     (case st of (b, r, caps) \<Rightarrow>
        mt a ic ml
          (\<lambda>(b', r', caps'). k (b', r', caps'(n \<mapsto> rev (take (length b' - length b) b'))))
          st)"
| "mt Bol ic ml k st =
     (case st of (b, r, caps) \<Rightarrow>
        (if b = [] \<or> (ml \<and> isLineTerminator (hd b)) then k st else None))"
| "mt Eol ic ml k st =
     (case st of (b, r, caps) \<Rightarrow>
        (if r = [] \<or> (ml \<and> isLineTerminator (hd r)) then k st else None))"

record regexp =
  body :: re
  ignoreCase :: bool
  multiline :: bool

text \<open>A match: \<open>match.index\<close>, \<open>match[0]\<close> and the groups \<open>match[n]\<close>.\<close>

record rmatch =
  mIndex :: nat
  mText :: string
  mGroup :: "nat \<Rightarrow> string option"

definition matchAt :: "regexp \<Rightarrow> string \<Rightarrow> string \<Rightarrow> rmatch option" where
  "matchAt rx b r =
     (case mt (body rx) (ignoreCase rx) (multiline rx) Some (b, r, Map.empty) of
        None \<Rightarrow> None
      | Some (b', r', caps) \<Rightarrow>
          Some \<lparr> mIndex = length b, mText = rev (take (length b' - length b) b'),
                 mGroup = caps \<rparr>)"

text \<open>The leftmost start position at which the expression matches.\<close>

fun execFrom :: "regexp \<Rightarrow> string \<Rightarrow> string \<Rightarrow> rmatch option" where
  "execFrom rx b [] = matchAt rx b []"
| "execFrom rx b (c # cs) =
     (case matchAt rx b (c # cs) of Some m \<Rightarrow> Some m | None \<Rightarrow> execFrom rx (c # b) cs)"

text \<open>\<open>rx.exec(s)\<close> and \<open>s.match(rx)\<close> for an expression without the \<open>g\<close> flag.\<close>

definition exec :: "regexp \<Rightarrow> string \<Rightarrow> rmatch option" where
  "exec rx s = execFrom rx [] s"

definition test :: "regexp \<Rightarrow> string \<Rightarrow> bool" where
  "test rx s \<longleftrightarrow> exec rx s \<noteq> None"

text \<open>
  \<open>s.replace(rx, repl)\<close> without the \<open>g\<close> flag, for a replacement without \<open>$\<close> (the source
  only passes the empty string).
\<close>

definition replaceRegex :: "string \<Rightarrow> regexp \<Rightarrow> string \<Rightarrow> string" where
  "replaceRegex s rx repl =
     (case exec rx s of
        None \<Rightarrow> s
      | Some m \<Rightarrow> take (mIndex m) s @ repl @ drop (mIndex m + length (mText m)) s)"

definition seqs :: "re list \<Rightarrow> re" where
  "seqs rs = foldr Seq rs (Lit [])"

definition star :: "cls \<Rightarrow> re" where
  "star c = Rep True 0 None c"

definition lazyStar :: "cls \<Rightarrow> re" where
  "lazyStar c = Rep False 0 None c"

definition plus :: "cls \<Rightarrow> re" where
  "plus c = Rep True 1 None c"

section \<open>JSON values\<close>

text \<open>
  The values \<open>JSON.parse\<close> returns. An object keeps its members in the order of the text; a
  later member with the same key overrides an earlier one when a property is read. The
  payload of a number is its value: the engine only ever tests it against zero and prints
  it.
\<close>

datatype json =
    JNull
  | JBool bool
  | JNumber rat
  | JString string
  | JArray "json list"
  | JObject "(string \<times> json) list"

text \<open>
  \<open>v.key\<close> for a value \<open>v\<close> other than \<open>null\<close> and a key that no prototype defines (\<open>type\<close>,
  \<open>path\<close>, \<open>slug\<close>, \<open>customModes\<close>): \<open>None\<close> is \<open>undefined\<close>.
\<close>

fun getProp :: "json \<Rightarrow> string \<Rightarrow> json option" where
  "getProp (JObject kvs) key = map_of (rev kvs) key"
| "getProp v key = None"

text \<open>Truthiness of a value, and of a value or \<open>undefined\<close>.\<close>

fun truthy :: "json \<Rightarrow> bool" where
  "truthy JNull \<longleftrightarrow> False"
| "truthy (JBool b) \<longleftrightarrow> b"
| "truthy (JNumber x) \<longleftrightarrow> x \<noteq> 0"
| "truthy (JString s) \<longleftrightarrow> s \<noteq> []"
| "truthy (JArray xs) \<longleftrightarrow> True"
| "truthy (JObject kvs) \<longleftrightarrow> True"

definition truthyOpt :: "json option \<Rightarrow> bool" where
  "truthyOpt v = (case v of None \<Rightarrow> False | Some x \<Rightarrow> truthy x)"

text \<open>
  ToString of a value (template literals, \<open>Array.prototype.join\<close>), with \<open>None\<close> for the
  TypeError of an object whose own \<open>toString\<close> member hides \<open>Object.prototype.toString\<close>.
  An array prints as its elements joined by commas; \<open>join\<close> prints \<open>null\<close> as the empty
  string.
\<close>

fun toStringJ :: "(rat \<Rightarrow> string) \<Rightarrow> json \<Rightarrow> string option"
  and joinJ :: "(rat \<Rightarrow> string) \<Rightarrow> string \<Rightarrow> json list \<Rightarrow> string option" where
  "toStringJ nts JNull = Some ''null''"
| "toStringJ nts (JBool b) = Some (if b then ''true'' else ''false'')"
| "toStringJ nts (JNumber x) = Some (nts x)"
| "toStringJ nts (JString s) = Some s"
| "toStringJ nts (JArray xs) = joinJ nts '','' xs"
| "toStringJ nts (JObject kvs) =
     (if ''toString'' \<in> fst ` set kvs then None else Some ''[object Object]'')"
| "joinJ nts sep [] = Some []"
| "joinJ nts sep (x # xs) =
     (case (if x = JNull then Some [] else toStringJ nts x) of
        None \<Rightarrow> None
      | Some a \<Rightarrow>
          (if xs = [] then Some a
           else case joinJ nts sep xs of None \<Rightarrow> None | Some rest \<Rightarrow> Some (a @ sep @ rest)))"

subsection \<open>\<open>JSON.stringify(value, null, 2)\<close>\<close>

definition hexDigit :: "nat \<Rightarrow> char" where
  "hexDigit n = ''0123456789abcdef'' ! n"

definition quoteChar :: "char \<Rightarrow> string" where
  "quoteChar c =
     (if c = CHR 0x22 then [CHR 0x5C, CHR 0x22]
      else if c = CHR 0x5C then [CHR 0x5C, CHR 0x5C]
      else if c = CHR 0x08 then [CHR 0x5C, CHR ''b'']
      else if c = CHR 0x0C then [CHR 0x5C, CHR ''f'']
      else if c = CHR 0x0A then [CHR 0x5C, CHR ''n'']
      else if c = CHR 0x0D then [CHR 0x5C, CHR ''r'']
      else if c = CHR 0x09 then [CHR 0x5C, CHR ''t'']
      else if (of_char c :: nat) < 32
        then [CHR 0x5C] @ ''u00'' @ [hexDigit (of_char c div 16), hexDigit (of_char c mod 16)]
      else [c])"

definition quoteJSON :: "string \<Rightarrow> string" where
  "quoteJSON s = [CHR 0x22] @ concat (map quoteChar s) @ [CHR 0x22]"

text \<open>\<open>xs.join(sep)\<close> for strings.\<close>

fun joinStr :: "string \<Rightarrow> string list \<Rightarrow> string" where
  "joinStr sep [] = []"
| "joinStr sep [x] = x"
| "joinStr sep (x # y # ys) = x @ sep @ joinStr sep (y # ys)"

text \<open>
  \<open>stringifyJ nts indent v\<close> serialises \<open>v\<close> at the current indentation, two blanks per level.
  The engine serialises objects it has built itself, whose keys are distinct and not
  numeric, so the members are printed in their order.
\<close>

fun stringifyJ :: "(rat \<Rightarrow> string) \<Rightarrow> string \<Rightarrow> json \<Rightarrow> string" where
  "stringifyJ nts ind JNull = ''null''"
| "stringifyJ nts ind (JBool b) = (if b then ''true'' else ''false'')"
| "stringifyJ nts ind (JNumber x) = nts x"
| "stringifyJ nts ind (JString s) = quoteJSON s"
| "stringifyJ nts ind (JArray xs) =
     (if xs = [] then ''[]''
      else ''['' @ [nl] @ ind @ ''  ''
           @ joinStr ('','' @ [nl] @ ind @ ''  '') (map (stringifyJ nts (ind @ ''  '')) xs)
           @ [nl] @ ind @ '']'')"
| "stringifyJ nts ind (JObject kvs) =
     (if kvs = [] then ''{}''
      else ''{'' @ [nl] @ ind @ ''  ''
           @ joinStr ('','' @ [nl] @ ind @ ''  '')
               (map (\<lambda>(k, v). quoteJSON k @ '': '' @ stringifyJ nts (ind @ ''  '') v) kvs)
           @ [nl] @ ind @ ''}'')"

definition JSON_stringify :: "(rat \<Rightarrow> string) \<Rightarrow> json \<Rightarrow> string" where
  "JSON_stringify nts v = stringifyJ nts [] v"

subsection \<open>A parser for JSON texts\<close>

text \<open>
  \<open>jsonParse\<close> follows the JSON grammar on texts of code units up to \<open>0xFF\<close>, so an escape
  \<open>\uXXXX\<close> is read when it denotes such a code unit. It is the \<open>JSON.parse\<close> of the
  concrete environments below; the engine itself takes \<open>JSON.parse\<close> from its environment.
  The functions carry a bound on the nesting and the number of elements still to read,
  which \<open>jsonParse\<close> sets beyond what the text can hold.
\<close>

definition isJsonSpace :: "char \<Rightarrow> bool" where
  "isJsonSpace c \<longleftrightarrow> c = CHR 0x20 \<or> c = CHR 0x09 \<or> c = CHR 0x0A \<or> c = CHR 0x0D"

definition skipSpace :: "string \<Rightarrow> string" where
  "skipSpace s = dropWhile isJsonSpace s"

definition digitVal :: "char \<Rightarrow> nat option" where
  "digitVal c = map_of (zip ''0123456789'' [0, 1, 2, 3, 4, 5, 6, 7, 8, 9]) c"

definition hexVal :: "char \<Rightarrow> nat option" where
  "hexVal c =
     map_of (zip ''0123456789abcdefABCDEF''
               [0, 1, 2, 3, 4, 5, 6, 7, 8, 9, 10, 11, 12, 13, 14, 15, 10, 11, 12, 13, 14, 15]) c"

definition isDigit :: "char \<Rightarrow> bool" where
  "isDigit c \<longleftrightarrow> digitVal c \<noteq> None"

definition digitsVal :: "string \<Rightarrow> nat" where
  "digitsVal ds = foldl (\<lambda>a c. 10 * a + the (digitVal c)) 0 ds"

definition unescape :: "char \<Rightarrow> char option" where
  "unescape e =
     map_of [(CHR 0x22, CHR 0x22), (CHR 0x5C, CHR 0x5C), (CHR ''/'', CHR ''/''),
             (CHR ''b'', CHR 0x08), (CHR ''f'', CHR 0x0C), (CHR ''n'', CHR 0x0A),
             (CHR ''r'', CHR 0x0D), (CHR ''t'', CHR 0x09)] e"

text \<open>The characters of a string after its opening quote; the result is the string and the rest.\<close>

fun parseChars :: "string \<Rightarrow> string \<Rightarrow> (string \<times> string) option" where
  "parseChars acc [] = None"
| "parseChars acc (c # cs) =
     (if c = CHR 0x22 then Some (rev acc, cs)
      else if c = CHR 0x5C then
        (case cs of
           [] \<Rightarrow> None
         | e # es \<Rightarrow>
             (if e = CHR ''u'' then
                (case es of
                   h1 # h2 # h3 # h4 # rest \<Rightarrow>
                     (case (hexVal h1, hexVal h2, hexVal h3, hexVal h4) of
                        (Some a, Some b, Some x, Some y) \<Rightarrow>
                          (if a = 0 \<and> b = 0 then parseChars (char_of (16 * x + y) # acc) rest
                           else None)
                      | _ \<Rightarrow> None)
                 | _ \<Rightarrow> None)
              else case unescape e of
                     None \<Rightarrow> None
                   | Some ch \<Rightarrow> parseChars (ch # acc) es))
      else if (of_char c :: nat) < 32 then None
      else parseChars (c # acc) cs)"

text \<open>
  A number: its exact decimal value, and zero where the nearest double is zero (at most
  \<open>2 ^ -1075\<close> in absolute value).
\<close>

definition decimalValue :: "bool \<Rightarrow> string \<Rightarrow> string \<Rightarrow> bool \<Rightarrow> string \<Rightarrow> rat" where
  "decimalValue neg ip fp eneg ep =
     (let m = (of_nat (digitsVal (ip @ fp)) :: rat);
          e = (if eneg then - int (digitsVal ep) else int (digitsVal ep)) - int (length fp);
          v = (if 0 \<le> e then m * 10 ^ nat e else m / 10 ^ nat (- e))
      in if v \<le> 1 / 2 ^ 1075 then 0 else if neg then - v else v)"

definition parseNumber :: "string \<Rightarrow> (json \<times> string) option" where
  "parseNumber s =
     (let neg = (s \<noteq> [] \<and> hd s = CHR ''-'');
          s1 = (if neg then tl s else s);
          ip = takeWhile isDigit s1;
          s2 = dropWhile isDigit s1;
          hasFrac = (s2 \<noteq> [] \<and> hd s2 = CHR ''.'');
          fp = (if hasFrac then takeWhile isDigit (tl s2) else []);
          s3 = (if hasFrac then dropWhile isDigit (tl s2) else s2);
          hasExp = (s3 \<noteq> [] \<and> (hd s3 = CHR ''e'' \<or> hd s3 = CHR ''E''));
          s4 = (if hasExp then tl s3 else s3);
          esign = (hasExp \<and> s4 \<noteq> [] \<and> (hd s4 = CHR ''-'' \<or> hd s4 = CHR ''+''));
          eneg = (esign \<and> hd s4 = CHR ''-'');
          s5 = (if esign then tl s4 else s4);
          ep = (if hasExp then takeWhile isDigit s5 else []);
          s6 = (if hasExp then dropWhile isDigit s5 else s3)
      in if ip = [] \<or> (length ip > 1 \<and> hd ip = CHR ''0'') \<or> (hasFrac \<and> fp = [])
            \<or> (hasExp \<and> ep = [])
         then None
         else Some (JNumber (decimalValue neg ip fp eneg ep), s6))"

fun parseValue :: "nat \<Rightarrow> string \<Rightarrow> (json \<times> string) option"
  and parseElements :: "nat \<Rightarrow> json list \<Rightarrow> string \<Rightarrow> (json \<times> string) option"
  and parseMembers :: "nat \<Rightarrow> (string \<times> json) list \<Rightarrow> string \<Rightarrow> (json \<times> string) option" where
  "parseValue 0 s = None"
| "parseValue (Suc n) s =
     (case skipSpace s of
        [] \<Rightarrow> None
      | c # cs \<Rightarrow>
          (if c = CHR ''{'' then
             (case skipSpace cs of
                [] \<Rightarrow> None
              | d # ds \<Rightarrow> if d = CHR ''}'' then Some (JObject [], ds) else parseMembers n [] (d # ds))
           else if c = CHR ''['' then
             (case skipSpace cs of
                [] \<Rightarrow> None
              | d # ds \<Rightarrow> if d = CHR '']'' then Some (JArray [], ds) else parseElements n [] (d # ds))
           else if c = CHR 0x22 then
             (case parseChars [] cs of None \<Rightarrow> None | Some (str, rest) \<Rightarrow> Some (JString str, rest))
           else if prefix ''true'' (c # cs) then Some (JBool True, drop 4 (c # cs))
           else if prefix ''false'' (c # cs) then Some (JBool False, drop 5 (c # cs))
           else if prefix ''null'' (c # cs) then Some (JNull, drop 4 (c # cs))
           else parseNumber (c # cs)))"
| "parseElements 0 acc s = None"
| "parseElements (Suc n) acc s =
     (case parseValue n s of
        None \<Rightarrow> None
      | Some (v, rest) \<Rightarrow>
          (case skipSpace rest of
             [] \<Rightarrow> None
           | c # cs \<Rightarrow>
               if c = CHR '','' then parseElements n (v # acc) cs
               else if c = CHR '']'' then Some (JArray (rev (v # acc)), cs)
               else None))"
| "parseMembers 0 acc s = None"
| "parseMembers (Suc n) acc s =
     (case skipSpace s of
        [] \<Rightarrow> None
      | q # qs \<Rightarrow>
          if q \<noteq> CHR 0x22 then None
          else case parseChars [] qs of
                 None \<Rightarrow> None
               | Some (key, rest) \<Rightarrow>
                   (case skipSpace rest of
                      [] \<Rightarrow> None
                    | c # cs \<Rightarrow>
                        if c \<noteq> CHR '':'' then None
                        else case parseValue n cs of
                               None \<Rightarrow> None
                             | Some (v, rest') \<Rightarrow>
                                 (case skipSpace rest' of
                                    [] \<Rightarrow> None
                                  | d # ds \<Rightarrow>
                                      if d = CHR '','' then parseMembers n ((key, v) # acc) ds
                                      else if d = CHR ''}''
                                        then Some (JObject (rev ((key, v) # acc)), ds)
                                      else None)))"

definition jsonParse :: "string \<Rightarrow> json option" where
  "jsonParse s =
     (case parseValue (2 * length s + 2) s of
        None \<Rightarrow> None
      | Some (v, rest) \<Rightarrow> if skipSpace rest = [] then Some v else None)"

section \<open>The language model client (\<open>src/llm.js\<close>)\<close>

text \<open>
  The places of \<open>engine.js\<close> that call \<open>callLLM\<close>; each runs at most once in a run of the
  engine.
\<close>

datatype site =
    SAnalysis | SAnalysisValidation
  | SStructure | SStructureValidation
  | SOutline
  | SRules | SRulesRefine
  | SRooignore | SRooignoreRefine
  | SWorkspace | SWorkspaceRefine
  | SFootgun | SFootgunRefine
  | SModes
  | SPlan | SPlanRefine
  | SPlanReview

text \<open>
  The places that read \<open>cancellationToken.isCancellationRequested\<close>: a line of \<open>engine.js\<close>,
  the start of \<open>callLLM\<close> at a site, or the start of an attempt inside \<open>callLLM\<close>.
\<close>

datatype probe =
    Line nat
  | CallStart site
  | AttemptStart site nat

text \<open>
  What one attempt of \<open>model.generateContent\<close> does: the reply is blocked
  (\<open>promptFeedback.blockReason\<close>), the request throws (\<open>Threw True\<close> when \<open>callLLM\<close> bails out:
  an invalid API key or a client error other than 429), or a text arrives.
\<close>

datatype attempt =
    Blocked
  | Threw bool
  | Returned string

datatype exn = CancellationError | Error

text \<open>
  Everything outside the engine: the value of the cancellation flag at each read, whether
  the client failed to initialise, what each attempt at each site does, and the runtime's
  \<open>JSON.parse\<close> and number printing.
\<close>

record env =
  tokenAt :: "probe \<Rightarrow> bool"
  initializationError :: bool
  generate :: "site \<Rightarrow> nat \<Rightarrow> attempt"
  JSON_parse :: "string \<Rightarrow> json option"
  numberToString :: "rat \<Rightarrow> string"

text \<open>
  The body that \<open>async-retry\<close> runs: \<open>attemptLLM env s r n\<close> is attempt number \<open>n\<close> with \<open>r\<close>
  retries left. A blank text throws inside the \<open>try\<close> and is retried like a network error.
\<close>

fun attemptLLM :: "env \<Rightarrow> site \<Rightarrow> nat \<Rightarrow> nat \<Rightarrow> exn + string" where
  "attemptLLM env s r n =
     (if tokenAt env (AttemptStart s n) then Inl CancellationError
      else case generate env s n of
             Blocked \<Rightarrow> Inl Error
           | Threw bail \<Rightarrow>
               (if bail then Inl Error
                else case r of 0 \<Rightarrow> Inl Error | Suc r' \<Rightarrow> attemptLLM env s r' (Suc n))
           | Returned text \<Rightarrow>
               (if text = [] \<or> length (trim text) = 0
                then case r of 0 \<Rightarrow> Inl Error | Suc r' \<Rightarrow> attemptLLM env s r' (Suc n)
                else Inr text))"

text \<open>\<open>callLLM\<close> with the default \<open>retryOptions\<close> (\<open>retries: 3\<close>), as the engine calls it.\<close>

definition callLLM :: "env \<Rightarrow> site \<Rightarrow> exn + string" where
  "callLLM env s =
     (if tokenAt env (CallStart s) then Inl CancellationError
      else if initializationError env then Inl Error
      else attemptLLM env s 3 1)"

section \<open>The text extractors (\<open>src/utils.js\<close>)\<close>

text \<open>
  \<open>group1 m\<close> is \<open>m[1]\<close> where only its truth value or its text is used: \<open>undefined\<close> and the
  empty string are both falsy.
\<close>

definition group1 :: "rmatch \<Rightarrow> string" where
  "group1 m = (case mGroup m 1 of None \<Rightarrow> [] | Some g \<Rightarrow> g)"

record structItem =
  itemType :: string
  itemPath :: string

text \<open>
  \<open>/[#]{2,3}\s*Proposed (?:File )?Structure(?:\s*\(JSON\))?[\s\S]*?```(?:json)?\s*([\s\S]*?)\s*```/im\<close>
\<close>

definition primaryRegex :: regexp where
  "primaryRegex =
     \<lparr> body = seqs [Rep True 2 (Some 3) (COneOf ''#''), star CSpace,
                     Lit ''Proposed '', Opt (Lit ''File ''), Lit ''Structure'',
                     Opt (Seq (star CSpace) (Lit ''(JSON)'')),
                     lazyStar CAny, Lit ''```'', Opt (Lit ''json''),
                     star CSpace, Grp 1 (lazyStar CAny), star CSpace, Lit ''```''],
       ignoreCase = True, multiline = True \<rparr>"

text \<open>\<open>/```json\s*([\s\S]*?)\s*```/m\<close>\<close>

definition fallbackRegex :: regexp where
  "fallbackRegex =
     \<lparr> body = seqs [Lit ''```json'', star CSpace, Grp 1 (lazyStar CAny), star CSpace,
                     Lit ''```''],
       ignoreCase = False, multiline = True \<rparr>"

text \<open>\<open>/\/$/\<close>\<close>

definition trailingSlashRegex :: regexp where
  "trailingSlashRegex = \<lparr> body = seqs [Lit ''/'', Eol], ignoreCase = False, multiline = False \<rparr>"

text \<open>\<open>path.replace(/\\/g, '/')\<close>: every backslash becomes a slash.\<close>

definition backslashesToSlashes :: "string \<Rightarrow> string" where
  "backslashesToSlashes s = map (\<lambda>c. if c = CHR 0x5C then CHR ''/'' else c) s"

definition extractJsonString :: "string \<Rightarrow> string option" where
  "extractJsonString markdownContent =
     (case exec primaryRegex markdownContent of
        Some jsonMatch \<Rightarrow>
          if group1 jsonMatch \<noteq> [] then Some (trim (group1 jsonMatch))
          else (case exec fallbackRegex markdownContent of
                  Some m \<Rightarrow> if group1 m \<noteq> [] then Some (trim (group1 m)) else None
                | None \<Rightarrow> None)
      | None \<Rightarrow>
          (case exec fallbackRegex markdownContent of
             Some m \<Rightarrow> if group1 m \<noteq> [] then Some (trim (group1 m)) else None
           | None \<Rightarrow> None))"

text \<open>The filter of \<open>parsedJson.filter(..)\<close>: the type and the path of an item that passes.\<close>

definition structureEntry :: "json \<Rightarrow> (string \<times> string) option" where
  "structureEntry item =
     (case item of
        JObject kvs \<Rightarrow>
          (case (getProp item ''type'', getProp item ''path'') of
             (Some (JString t), Some (JString p)) \<Rightarrow>
               if (t = ''dir'' \<or> t = ''file'') \<and> trim p \<noteq> [] then Some (t, p) else None
           | _ \<Rightarrow> None)
      | _ \<Rightarrow> None)"

definition normalizePath :: "string \<Rightarrow> string" where
  "normalizePath p = replaceRegex (backslashesToSlashes (trim p)) trailingSlashRegex []"

definition fixGitignore :: "structItem \<Rightarrow> structItem" where
  "fixGitignore item =
     (if toLowerCase (itemPath item) = ''gitignore'' then item \<lparr> itemPath := ''.gitignore'' \<rparr>
      else item)"

definition parseStructureFromJsonMd :: "(string \<Rightarrow> json option) \<Rightarrow> string \<Rightarrow> structItem list" where
  "parseStructureFromJsonMd JSONparse markdownContent =
     (case extractJsonString markdownContent of
        None \<Rightarrow> []
      | Some extractedJsonString \<Rightarrow>
          if extractedJsonString = [] then []
          else (case JSONparse extractedJsonString of
                  Some (JArray parsedJson) \<Rightarrow>
                    map fixGitignore
                      (map (\<lambda>(t, p). \<lparr> itemType = t, itemPath = normalizePath p \<rparr>)
                         (List.map_filter structureEntry parsedJson))
                | _ \<Rightarrow> []))"

text \<open>\<open>/^[#]{2,3}\s*Core Logic Outlines\s*([\s\S]*?)(?:^[#]{2,}\s|\s*$)/m\<close>\<close>

definition outlineSectionRegex :: regexp where
  "outlineSectionRegex =
     \<lparr> body = seqs [Bol, Rep True 2 (Some 3) (COneOf ''#''), star CSpace,
                     Lit ''Core Logic Outlines'', star CSpace, Grp 1 (lazyStar CAny),
                     Alt (seqs [Bol, Rep True 2 None (COneOf ''#''), Rep True 1 (Some 1) CSpace])
                         (seqs [star CSpace, Eol])],
       ignoreCase = False, multiline = True \<rparr>"

text \<open>\<open>/^\s*-\s*`([^`]+)`:/\<close>\<close>

definition outlineFileRegex :: regexp where
  "outlineFileRegex =
     \<lparr> body = seqs [Bol, star CSpace, Lit ''-'', star CSpace, Lit ''`'',
                     Grp 1 (plus (CNoneOf ''`'')), Lit ''`:''],
       ignoreCase = False, multiline = False \<rparr>"

text \<open>
  \<open>coreLogicOutlines[key] = value\<close> on a plain object: the key \<open>__proto__\<close> reaches the setter
  of \<open>Object.prototype\<close>, which ignores a string, and creates no property.
\<close>

definition setOutline :: "(string \<Rightarrow> string option) \<Rightarrow> string \<Rightarrow> string \<Rightarrow> (string \<Rightarrow> string option)" where
  "setOutline m key v = (if key = ''__proto__'' then m else m(key \<mapsto> v))"

text \<open>
  The loop over the lines of the section. Its state: \<open>currentOutlineFile\<close> (\<open>None\<close> is \<open>null\<close>),
  \<open>currentOutline\<close> and the map built so far.
\<close>

type_synonym outlineState = "string option \<times> string \<times> (string \<Rightarrow> string option)"

definition saveOutline :: "outlineState \<Rightarrow> (string \<Rightarrow> string option)" where
  "saveOutline st =
     (case st of (currentOutlineFile, currentOutline, coreLogicOutlines) \<Rightarrow>
        (case currentOutlineFile of
           Some file \<Rightarrow>
             if file \<noteq> [] \<and> trim currentOutline \<noteq> []
             then setOutline coreLogicOutlines file (trim currentOutline)
             else coreLogicOutlines
         | None \<Rightarrow> coreLogicOutlines))"

definition outlineStep :: "outlineState \<Rightarrow> string \<Rightarrow> outlineState" where
  "outlineStep st line =
     (case st of (currentOutlineFile, currentOutline, coreLogicOutlines) \<Rightarrow>
        (case exec outlineFileRegex line of
           Some fileMatch \<Rightarrow> (Some (trim (group1 fileMatch)), [], saveOutline st)
         | None \<Rightarrow>
             if currentOutlineFile \<noteq> None \<and> currentOutlineFile \<noteq> Some []
             then (if 0 < length currentOutline \<or> 0 < length (trim line)
                   then (currentOutlineFile, currentOutline @ line @ [nl], coreLogicOutlines)
                   else st)
             else st))"

definition parseOutlinesFromMd :: "string \<Rightarrow> (string \<Rightarrow> string option)" where
  "parseOutlinesFromMd markdownContent =
     (case exec outlineSectionRegex markdownContent of
        Some outlineSectionMatch \<Rightarrow>
          if group1 outlineSectionMatch \<noteq> []
          then saveOutline
                 (foldl outlineStep (None, [], Map.empty)
                    (split (group1 outlineSectionMatch) [nl]))
          else Map.empty
      | None \<Rightarrow> Map.empty)"

section \<open>Every match is a piece of the input\<close>

text \<open>
  \<open>minLen r\<close> is a lower bound on the length of a match of \<open>r\<close>. A successful match hands
  its continuation a state further right in the same input, and \<open>exec\<close> returns the index
  and the text of a substring of the input.
\<close>

fun minLen :: "re \<Rightarrow> nat" where
  "minLen (Lit w) = length w"
| "minLen (Rep g lo hi c) = lo"
| "minLen (Opt a) = 0"
| "minLen (Seq a c) = minLen a + minLen c"
| "minLen (Alt a c) = min (minLen a) (minLen c)"
| "minLen (Grp n a) = minLen a"
| "minLen Bol = 0"
| "minLen Eol = 0"

lemma litMatch_sound:
  "litMatch ic w b r = Some (b', r') \<Longrightarrow> \<exists>u. length u = length w \<and> b' = rev u @ b \<and> r = u @ r'"
proof (induction ic w b r rule: litMatch.induct)
  case (1 ic b r)
  then show ?case by simp
next
  case (2 ic p ps b)
  then show ?case by simp
next
  case (3 ic p ps b c cs)
  show ?case
  proof (cases "canonicalize ic p = canonicalize ic c")
    case True
    with 3 obtain u where "length u = length ps" "b' = rev u @ c # b" "cs = u @ r'"
      by auto
    then show ?thesis by (intro exI [of _ "c # u"]) simp
  next
    case False
    with 3 show ?thesis by simp
  qed
qed

lemma rep_sound:
  "rep g p lo hi k b caps r = Some res \<Longrightarrow>
     \<exists>u r'. k (rev u @ b, r', caps) = Some res \<and> r = u @ r' \<and> lo \<le> length u"
proof (induction r arbitrary: lo hi b)
  case Nil
  then show ?case by (auto split: if_splits)
next
  case (Cons c cs)
  let ?more = "rep g p (lo - 1) (map_option (\<lambda>h. h - 1) hi) k (c # b) caps cs"
  have more: "\<exists>u r'. k (rev u @ b, r', caps) = Some res \<and> c # cs = u @ r' \<and> lo \<le> length u"
    if "?more = Some res"
  proof -
    from Cons.IH [OF that] obtain u r' where
      "k (rev u @ c # b, r', caps) = Some res" "cs = u @ r'" "lo - 1 \<le> length u" by blast
    then show ?thesis by (intro exI [of _ "c # u"] exI [of _ r']) auto
  qed
  have stop: "\<exists>u r'. k (rev u @ b, r', caps) = Some res \<and> c # cs = u @ r' \<and> lo \<le> length u"
    if "k (b, c # cs, caps) = Some res" "lo = 0"
    using that by (intro exI [of _ "[]"] exI [of _ "c # cs"]) simp
  from Cons.prems consider (m) "?more = Some res" | (s) "lo = 0" "k (b, c # cs, caps) = Some res"
    by (auto split: if_splits option.splits)
  then show ?case
  proof cases
    case m
    then show ?thesis by (rule more)
  next
    case s
    show ?thesis by (rule stop [OF s(2) s(1)])
  qed
qed

lemma mt_sound:
  "mt re ic ml k (b, r, caps) = Some res \<Longrightarrow>
     \<exists>u r' caps'. k (rev u @ b, r', caps') = Some res \<and> r = u @ r' \<and> minLen re \<le> length u"
proof (induction re arbitrary: k b r caps)
  case (Lit w)
  then obtain b' r' where lm: "litMatch ic w b r = Some (b', r')" and k: "k (b', r', caps) = Some res"
    by (auto split: option.splits)
  from litMatch_sound [OF lm] obtain u where "length u = length w" "b' = rev u @ b" "r = u @ r'"
    by blast
  with k have "k (rev u @ b, r', caps) = Some res \<and> r = u @ r' \<and> minLen (Lit w) \<le> length u"
    by simp
  then show ?case by blast
next
  case (Rep g lo hi c)
  then show ?case by (auto dest!: rep_sound)
next
  case (Opt a)
  show ?case
  proof (cases "mt a ic ml k (b, r, caps)")
    case None
    with Opt.prems have "k (b, r, caps) = Some res" by simp
    then show ?thesis by (intro exI [of _ "[]"] exI [of _ r] exI [of _ caps]) simp
  next
    case (Some x)
    with Opt.prems have "mt a ic ml k (b, r, caps) = Some res" by simp
    from Opt.IH [OF this] obtain u r' caps' where
      "k (rev u @ b, r', caps') = Some res" "r = u @ r'" by blast
    then have "k (rev u @ b, r', caps') = Some res \<and> r = u @ r' \<and> minLen (Opt a) \<le> length u"
      by simp
    then show ?thesis by blast
  qed
next
  case (Seq a c)
  from Seq.prems have "mt a ic ml (\<lambda>st'. mt c ic ml k st') (b, r, caps) = Some res" by simp
  from Seq.IH(1) [OF this] obtain u r' caps' where
    1: "mt c ic ml k (rev u @ b, r', caps') = Some res" "r = u @ r'" "minLen a \<le> length u"
    by blast
  from Seq.IH(2) [OF 1(1)] obtain v r'' caps'' where
    2: "k (rev v @ rev u @ b, r'', caps'') = Some res" "r' = v @ r''" "minLen c \<le> length v"
    by blast
  from 1 2 have "k (rev (u @ v) @ b, r'', caps'') = Some res \<and> r = (u @ v) @ r''
      \<and> minLen (Seq a c) \<le> length (u @ v)"
    by simp
  then show ?case by blast
next
  case (Alt a c)
  show ?case
  proof (cases "mt a ic ml k (b, r, caps)")
    case None
    with Alt.prems have "mt c ic ml k (b, r, caps) = Some res" by simp
    from Alt.IH(2) [OF this] obtain u r' caps' where
      "k (rev u @ b, r', caps') = Some res" "r = u @ r'" "minLen c \<le> length u" by blast
    then have "k (rev u @ b, r', caps') = Some res \<and> r = u @ r' \<and> minLen (Alt a c) \<le> length u"
      by simp
    then show ?thesis by blast
  next
    case (Some x)
    with Alt.prems have "mt a ic ml k (b, r, caps) = Some res" by simp
    from Alt.IH(1) [OF this] obtain u r' caps' where
      "k (rev u @ b, r', caps') = Some res" "r = u @ r'" "minLen a \<le> length u" by blast
    then have "k (rev u @ b, r', caps') = Some res \<and> r = u @ r' \<and> minLen (Alt a c) \<le> length u"
      by simp
    then show ?thesis by blast
  qed
next
  case (Grp n a)
  let ?k = "\<lambda>(b', r', caps'). k (b', r', caps'(n \<mapsto> rev (take (length b' - length b) b')))"
  from Grp.prems have "mt a ic ml ?k (b, r, caps) = Some res" by simp
  from Grp.IH [OF this] obtain u r' caps' where
    "?k (rev u @ b, r', caps') = Some res" "r = u @ r'" "minLen a \<le> length u" by blast
  then have "k (rev u @ b, r', caps'(n \<mapsto> u)) = Some res \<and> r = u @ r'
      \<and> minLen (Grp n a) \<le> length u"
    by simp
  then show ?case by blast
next
  case Bol
  then have "k (b, r, caps) = Some res" by (simp split: if_splits)
  then show ?case by (intro exI [of _ "[]"] exI [of _ r] exI [of _ caps]) simp
next
  case Eol
  then have "k (b, r, caps) = Some res" by (simp split: if_splits)
  then show ?case by (intro exI [of _ "[]"] exI [of _ r] exI [of _ caps]) simp
qed

lemma matchAt_sound:
  assumes "matchAt rx b r = Some m"
  shows "mIndex m = length b \<and> prefix (mText m) r \<and> minLen (body rx) \<le> length (mText m)"
proof -
  from assms obtain b' r' caps where
    mt: "mt (body rx) (ignoreCase rx) (multiline rx) Some (b, r, Map.empty) = Some (b', r', caps)"
    and m: "m = \<lparr> mIndex = length b, mText = rev (take (length b' - length b) b'), mGroup = caps \<rparr>"
    by (auto simp add: matchAt_def split: option.splits)
  from mt_sound [OF mt] obtain u where "b' = rev u @ b" "r = u @ r'" "minLen (body rx) \<le> length u"
    by auto
  with m show ?thesis by simp
qed

lemma execFrom_sound:
  "execFrom rx b r = Some m \<Longrightarrow>
     length b \<le> mIndex m \<and> mText m = take (length (mText m)) (drop (mIndex m - length b) r)
     \<and> mIndex m - length b + length (mText m) \<le> length r
     \<and> minLen (body rx) \<le> length (mText m)"
proof (induction r arbitrary: b)
  case Nil
  then show ?case by (auto dest!: matchAt_sound simp: prefix_def)
next
  case (Cons c cs)
  show ?case
  proof (cases "matchAt rx b (c # cs)")
    case None
    with Cons.prems have "execFrom rx (c # b) cs = Some m" by simp
    from Cons.IH [OF this] have ih: "length (c # b) \<le> mIndex m"
      "mText m = take (length (mText m)) (drop (mIndex m - length (c # b)) cs)"
      "mIndex m - length (c # b) + length (mText m) \<le> length cs"
      "minLen (body rx) \<le> length (mText m)" by blast+
    from ih(1) have eq: "mIndex m - length b = Suc (mIndex m - length (c # b))" by simp
    from ih(1) ih(3) have le: "mIndex m - length b + length (mText m) \<le> length (c # cs)"
      by simp
    from ih(2) have tx: "mText m = take (length (mText m)) (drop (mIndex m - length b) (c # cs))"
      unfolding eq by simp
    from ih(1) have "length b \<le> mIndex m" by simp
    with ih(4) le tx show ?thesis by blast
  next
    case (Some m')
    with Cons.prems have "matchAt rx b (c # cs) = Some m" by simp
    from matchAt_sound [OF this] have ms: "mIndex m = length b" "prefix (mText m) (c # cs)"
      "minLen (body rx) \<le> length (mText m)" by blast+
    from ms(2) have "length (mText m) \<le> length (c # cs)" by (rule prefix_length_le)
    moreover from ms(2) have "mText m = take (length (mText m)) (c # cs)"
      by (auto simp: prefix_def)
    ultimately show ?thesis using ms(1) ms(3) by simp
  qed
qed

lemma exec_sound:
  assumes "exec rx s = Some m"
  shows "mText m = take (length (mText m)) (drop (mIndex m) s)"
    and "mIndex m + length (mText m) \<le> length s"
    and "minLen (body rx) \<le> length (mText m)"
  using execFrom_sound [of rx "[]" s m] assms by (simp_all add: exec_def)

section \<open>The engine (\<open>src/engine.js\<close>)\<close>

text \<open>
  A stage returns or throws, and calls \<open>callLLM\<close> at some sites on the way: its value is the
  pair of the outcome and the list of the sites called. Prompts are rendered from the
  stage's arguments and only reach the language model, whose replies are read from the
  environment; progress reports and log lines are left out.
\<close>

type_synonym 'a run = "(exn + 'a) \<times> site list"

definition ret :: "'a \<Rightarrow> 'a run" where
  "ret x = (Inr x, [])"

definition throw :: "exn \<Rightarrow> 'a run" where
  "throw e = (Inl e, [])"

text \<open>\<open>andThen m f\<close>: run \<open>m\<close>; if it returns, go on with \<open>f\<close>; if it throws, so does the whole.\<close>

definition andThen :: "'a run \<Rightarrow> ('a \<Rightarrow> 'b run) \<Rightarrow> 'b run" where
  "andThen m f =
     (case m of
        (Inl e, l) \<Rightarrow> (Inl e, l)
      | (Inr x, l) \<Rightarrow> (case f x of (r, l') \<Rightarrow> (r, l @ l')))"

text \<open>\<open>if (cancellationToken.isCancellationRequested) throw new CancellationError()\<close>\<close>

definition checkCancelled :: "env \<Rightarrow> probe \<Rightarrow> unit run" where
  "checkCancelled env p = (if tokenAt env p then throw CancellationError else ret ())"

text \<open>
  \<open>try { x = await callLLM(..) } catch (error) { .. }\<close>: \<open>tryLLM env s handler cont\<close> calls the
  model at site \<open>s\<close> and goes on with \<open>handler\<close> when the call throws, with \<open>cont\<close> on its text.
\<close>

definition tryLLM :: "env \<Rightarrow> site \<Rightarrow> (exn \<Rightarrow> 'a run) \<Rightarrow> (string \<Rightarrow> 'a run) \<Rightarrow> 'a run" where
  "tryLLM env s handler cont =
     andThen (Inr (), [s]) (\<lambda>_. case callLLM env s of Inl e \<Rightarrow> handler e | Inr t \<Rightarrow> cont t)"

subsection \<open>Stage 1: analysis\<close>

definition runAnalysisStage :: "env \<Rightarrow> string run" where
  "runAnalysisStage env =
     andThen (checkCancelled env (Line 56)) (\<lambda>_.
     tryLLM env SAnalysis (\<lambda>error. throw Error) (\<lambda>analysisResult.
     andThen (checkCancelled env (Line 68)) (\<lambda>_.
     tryLLM env SAnalysisValidation (\<lambda>error. ret analysisResult) (\<lambda>validationResponse.
       if toUpperCase (trim validationResponse) \<noteq> ''OK''
       then ret validationResponse
       else ret analysisResult))))"

subsection \<open>Stage 2: structuring\<close>

definition separator :: string where
  "separator = ''--- CONCISE ONE-SHOT COMMAND BELOW ---''"

definition structurePlaceholder :: string where
  "structurePlaceholder = ''# Error: Could not parse structured result after validation.''"

definition commandPlaceholder :: string where
  "commandPlaceholder = ''Build the project as described (parsing error).''"

text \<open>The split of the document, lines 134 to 146.\<close>

definition splitStructure :: "string \<Rightarrow> string \<times> string" where
  "splitStructure structureResultRaw =
     (let structureParts = split structureResultRaw separator;
          structureResultMd = map_option trim (nthOpt structureParts 0);
          conciseCommand = map_option trim (nthOpt structureParts 1)
      in (orElse structureResultMd structurePlaceholder, orElse conciseCommand commandPlaceholder))"

definition runStructuringStage :: "env \<Rightarrow> (string \<times> string) run" where
  "runStructuringStage env =
     andThen (checkCancelled env (Line 102)) (\<lambda>_.
     tryLLM env SStructure (\<lambda>error. throw Error) (\<lambda>structureResultRaw.
     andThen (checkCancelled env (Line 114)) (\<lambda>_.
     tryLLM env SStructureValidation
       (\<lambda>error. ret (splitStructure structureResultRaw))
       (\<lambda>structureValidationResponse.
          if structureValidationResponse \<noteq> []
             \<and> toUpperCase (trim structureValidationResponse) \<noteq> ''OK''
          then ret (splitStructure structureValidationResponse)
          else ret (splitStructure structureResultRaw)))))"

subsection \<open>Stage 3: outline refinement\<close>

text \<open>\<open>/### Core Logic Outlines\s*([\s\S]*?)(?:##|$)/\<close>\<close>

definition prelimOutlineParser :: regexp where
  "prelimOutlineParser =
     \<lparr> body = seqs [Lit ''### Core Logic Outlines'', star CSpace, Grp 1 (lazyStar CAny),
                     Alt (Lit ''##'') Eol],
       ignoreCase = False, multiline = False \<rparr>"

text \<open>\<open>/```\s*$/m\<close>\<close>

definition structureJsonEndRegex :: regexp where
  "structureJsonEndRegex =
     \<lparr> body = seqs [Lit ''```'', star CSpace, Eol], ignoreCase = False, multiline = True \<rparr>"

text \<open>The splice of the refined outlines into the document, lines 186 to 201.\<close>

definition spliceOutlines :: "string \<Rightarrow> string \<Rightarrow> string" where
  "spliceOutlines structureResultMd refinedOutlinesContent =
     (case exec prelimOutlineParser structureResultMd of
        Some prelimOutlineMatch \<Rightarrow>
          replaceString structureResultMd (mText prelimOutlineMatch)
            ([nl] @ trim refinedOutlinesContent @ [nl])
      | None \<Rightarrow>
          (case exec structureJsonEndRegex structureResultMd of
             Some matchJsonEnd \<Rightarrow>
               (let insertIndex = mIndex matchJsonEnd + length (mText matchJsonEnd)
                in take insertIndex structureResultMd @ [nl, nl] @ trim refinedOutlinesContent
                   @ drop insertIndex structureResultMd)
           | None \<Rightarrow> structureResultMd @ [nl, nl] @ trim refinedOutlinesContent))"

text \<open>
  The check of line 174 stands inside the \<open>try\<close>: its CancellationError is caught like a
  failure of the call, and the stage returns the document as it was.
\<close>

definition runOutlineRefinementStage :: "env \<Rightarrow> string \<Rightarrow> string run" where
  "runOutlineRefinementStage env structureResultMd =
     andThen (checkCancelled env (Line 161)) (\<lambda>_.
       if tokenAt env (Line 174) then ret structureResultMd
       else tryLLM env SOutline (\<lambda>error. ret structureResultMd) (\<lambda>refinedOutlinesContent.
              ret (spliceOutlines structureResultMd refinedOutlinesContent)))"

subsection \<open>Stage 4: \<open>.clinerules-code\<close>\<close>

text \<open>\<open>/^(here is|here's) the content:?\s*/i\<close>\<close>

definition preambleRegex :: regexp where
  "preambleRegex =
     \<lparr> body = seqs [Bol, Grp 1 (Alt (Lit ''here is'') (Lit ''here's'')), Lit '' the content'',
                     Opt (Lit '':''), star CSpace],
       ignoreCase = True, multiline = False \<rparr>"

text \<open>\<open>/^\/\/ \.clinerules-code for .*/\<close>\<close>

definition rulesHeaderRegex :: regexp where
  "rulesHeaderRegex =
     \<lparr> body = seqs [Bol, Lit ''// .clinerules-code for '', star CDot],
       ignoreCase = False, multiline = False \<rparr>"

text \<open>\<open>/^\/\/ Primary Tech Stack:/m\<close>\<close>

definition rulesTechStackRegex :: regexp where
  "rulesTechStackRegex =
     \<lparr> body = seqs [Bol, Lit ''// Primary Tech Stack:''], ignoreCase = False, multiline = True \<rparr>"

text \<open>
  Lines 225 to 233 (and 252 to 256): trim, take the inside of a text that starts and ends
  with three backticks, remove the preamble.
\<close>

definition stripFence :: "string \<Rightarrow> string" where
  "stripFence rulesResult =
     (if startsWith rulesResult ''```'' \<and> endsWith rulesResult ''```''
      then trim (substring rulesResult
                   (case indexOf rulesResult [nl] of None \<Rightarrow> 0 | Some i \<Rightarrow> i + 1)
                   (case lastIndexOf rulesResult ''```'' of None \<Rightarrow> 0 | Some j \<Rightarrow> j))
      else rulesResult)"

definition normalizeRules :: "string \<Rightarrow> string" where
  "normalizeRules rawRulesResult = replaceRegex (stripFence (trim rawRulesResult)) preambleRegex []"

definition isValidRules :: "string \<Rightarrow> bool" where
  "isValidRules rulesResult \<longleftrightarrow>
     rulesResult \<noteq> [] \<and> test rulesHeaderRegex rulesResult \<and> test rulesTechStackRegex rulesResult"

definition runRulesGenerationStage :: "env \<Rightarrow> string option run" where
  "runRulesGenerationStage env =
     andThen (checkCancelled env (Line 215)) (\<lambda>_.
     tryLLM env SRules (\<lambda>error. ret None) (\<lambda>rawRulesResult.
       if \<not> isValidRules (normalizeRules rawRulesResult) then
         andThen (checkCancelled env (Line 241)) (\<lambda>_.
         tryLLM env SRulesRefine (\<lambda>error. ret None) (\<lambda>refinedRawResult.
           if \<not> isValidRules (normalizeRules refinedRawResult) then ret None
           else ret (Some (normalizeRules refinedRawResult))))
       else ret (Some (normalizeRules rawRulesResult))))"

subsection \<open>Stage 4.5: \<open>.rooignore\<close>\<close>

text \<open>\<open>/^# \.rooignore for .*/\<close>\<close>

definition rooignoreHeaderRegex :: regexp where
  "rooignoreHeaderRegex =
     \<lparr> body = seqs [Bol, Lit ''# .rooignore for '', star CDot],
       ignoreCase = False, multiline = False \<rparr>"

definition runRooignoreGenerationStage :: "env \<Rightarrow> string option run" where
  "runRooignoreGenerationStage env =
     andThen (checkCancelled env (Line 282)) (\<lambda>_.
     tryLLM env SRooignore (\<lambda>error. ret None) (\<lambda>rooignoreResult.
       if rooignoreResult = [] \<or> \<not> test rooignoreHeaderRegex rooignoreResult then
         andThen (checkCancelled env (Line 300)) (\<lambda>_.
         tryLLM env SRooignoreRefine (\<lambda>error. ret None) (\<lambda>refined.
           if refined = [] \<or> \<not> test rooignoreHeaderRegex refined then ret None
           else ret (Some refined)))
       else ret (Some rooignoreResult)))"

subsection \<open>Stage 4.6: workspace \<open>.clinerules\<close>\<close>

text \<open>\<open>/^\/\/ General Workspace \.clinerules for .*/\<close>\<close>

definition workspaceRulesHeaderRegex :: regexp where
  "workspaceRulesHeaderRegex =
     \<lparr> body = seqs [Bol, Lit ''// General Workspace .clinerules for '', star CDot],
       ignoreCase = False, multiline = False \<rparr>"

definition runWorkspaceRulesGenerationStage :: "env \<Rightarrow> string option run" where
  "runWorkspaceRulesGenerationStage env =
     andThen (checkCancelled env (Line 333)) (\<lambda>_.
     tryLLM env SWorkspace (\<lambda>error. ret None) (\<lambda>workspaceRulesResult.
       if workspaceRulesResult = [] \<or> \<not> test workspaceRulesHeaderRegex workspaceRulesResult then
         andThen (checkCancelled env (Line 351)) (\<lambda>_.
         tryLLM env SWorkspaceRefine (\<lambda>error. ret None) (\<lambda>refined.
           if refined = [] \<or> \<not> test workspaceRulesHeaderRegex refined then ret None
           else ret (Some refined)))
       else ret (Some workspaceRulesResult)))"

subsection \<open>Stage 4.7: the optional system prompt override\<close>

definition slugChars :: string where
  "slugChars = ''abcdefghijklmnopqrstuvwxyz0123456789-''"

text \<open>\<open>/override system prompt for mode\s+([a-z0-9-]+)/i\<close>\<close>

definition footgunRegex :: regexp where
  "footgunRegex =
     \<lparr> body = seqs [Lit ''override system prompt for mode'', plus CSpace,
                     Grp 1 (plus (COneOf slugChars))],
       ignoreCase = True, multiline = False \<rparr>"

text \<open>The result is \<open>(footgunPromptResult, footgunTargetMode)\<close>, with \<open>None\<close> for \<open>null\<close>.\<close>

definition runFootgunPromptGenerationStage ::
    "env \<Rightarrow> string \<Rightarrow> string \<Rightarrow> (string option \<times> string option) run" where
  "runFootgunPromptGenerationStage env analysisResult structureResultMd =
     (case exec footgunRegex (analysisResult @ [nl] @ structureResultMd) of
        None \<Rightarrow> ret (None, None)
      | Some footgunMatch \<Rightarrow>
          if group1 footgunMatch = [] then ret (None, None)
          else
            (let footgunTargetMode = toLowerCase (trim (group1 footgunMatch)) in
             andThen (checkCancelled env (Line 393)) (\<lambda>_.
             tryLLM env SFootgun (\<lambda>error. ret (None, None)) (\<lambda>footgunPromptResult.
               if footgunPromptResult = [] \<or> length (trim footgunPromptResult) = 0 then
                 andThen (checkCancelled env (Line 408)) (\<lambda>_.
                 tryLLM env SFootgunRefine (\<lambda>error. ret (None, None)) (\<lambda>refined.
                   if refined = [] \<or> length (trim refined) = 0 then ret (None, None)
                   else ret (Some refined, Some footgunTargetMode)))
               else ret (Some footgunPromptResult, Some footgunTargetMode)))))"

subsection \<open>Stage 5: \<open>.roomodes\<close>\<close>

text \<open>Lines 466 to 470: the text between a fence \<open>```json\<close> or \<open>```\<close> and a closing fence.\<close>

definition cleanFences :: "string \<Rightarrow> string" where
  "cleanFences roomodesResult =
     (if startsWith roomodesResult ''```json'' \<and> endsWith roomodesResult ''```''
      then trim (substring roomodesResult 7 (length roomodesResult - 3))
      else if startsWith roomodesResult ''```'' \<and> endsWith roomodesResult ''```''
      then trim (substring roomodesResult 3 (length roomodesResult - 3))
      else roomodesResult)"

text \<open>\<open>customModes.map(mode => mode.slug)\<close>: reading \<open>slug\<close> of \<open>null\<close> is a TypeError (\<open>None\<close>).\<close>

fun mapSlug :: "json list \<Rightarrow> json option list option" where
  "mapSlug [] = Some []"
| "mapSlug (mode # modes) =
     (if mode = JNull then None
      else case mapSlug modes of
             None \<Rightarrow> None
           | Some slugs \<Rightarrow> Some (getProp mode ''slug'' # slugs))"

text \<open>\<open>slugs.filter(Boolean)\<close>: the slugs that are defined and truthy.\<close>

definition filterBoolean :: "json option list \<Rightarrow> json list" where
  "filterBoolean slugs = List.map_filter (\<lambda>slug. if truthyOpt slug then slug else None) slugs"

text \<open>
  The body of the \<open>try\<close>, lines 473 to 512: \<open>None\<close> when it throws (a syntax error of
  \<open>JSON.parse\<close>, the explicit \<open>throw\<close>, or a TypeError of \<open>mode.slug\<close> or of the \<open>join\<close> in the log
  line 484), otherwise the delegate slugs.
\<close>

definition parseModes :: "env \<Rightarrow> string \<Rightarrow> json list option" where
  "parseModes env roomodesResult =
     (case JSON_parse env roomodesResult of
        None \<Rightarrow> None
      | Some parsedModes \<Rightarrow>
          (case (if truthy parsedModes then getProp parsedModes ''customModes'' else None) of
             Some (JArray customModes) \<Rightarrow>
               if 0 < length customModes then
                 (case mapSlug customModes of
                    None \<Rightarrow> None
                  | Some slugs \<Rightarrow>
                      (case joinJ (numberToString env) '', '' (filterBoolean slugs) of
                         None \<Rightarrow> None
                       | Some logged \<Rightarrow>
                           (let techSpecificSlugs =
                                  filter (\<lambda>slug. slug \<noteq> JString ''project-orchestrator'')
                                    (filterBoolean slugs)
                            in if length techSpecificSlugs = 0 then Some (techSpecificSlugs @ [JString ''code''])
                               else Some techSpecificSlugs)))
               else None
           | _ \<Rightarrow> None))"

record modesResult =
  roomodesResult :: string
  techSpecificSlugs :: "json list"
  parsedModesSuccessfully :: bool

definition developerMode :: json where
  "developerMode =
     JObject [(''slug'', JString ''developer''),
              (''name'', JString ''Developer''),
              (''roleDefinition'', JString ''Implement the project based on the analysis.''),
              (''groups'', JArray [JString ''read'', JString ''edit'', JString ''command'',
                                   JString ''attempt_completion'']),
              (''customInstructions'',
                 JString ''Implement features based on the project plan and requirements. Follow any available coding standards. (Fallback due to modes generation error)'')]"

definition projectManagerMode :: json where
  "projectManagerMode =
     JObject [(''slug'', JString ''project-manager''),
              (''name'', JString ''Project Manager''),
              (''roleDefinition'', JString ''Manage the build based on the analysis, delegate tasks.''),
              (''groups'', JArray [JString ''read'', JString ''new_task'', JString ''switch_mode'']),
              (''customInstructions'',
                 JString ''Delegate tasks via <new_task> to the 'code' mode. Monitor progress. Use information from the analysis and structure documents. (Fallback due to modes generation error)'')]"

definition codeMode :: json where
  "codeMode =
     JObject [(''slug'', JString ''code''),
              (''name'', JString ''General Developer''),
              (''roleDefinition'', JString ''Implement delegated tasks.''),
              (''groups'', JArray [JString ''read'', JString ''edit'', JString ''command'',
                                   JString ''attempt_completion'']),
              (''customInstructions'',
                 JString ''Implement features based on delegated tasks. Follow any available coding standards. (Fallback due to modes generation error)'')]"

definition simpleProjectHeuristic :: "string \<Rightarrow> bool" where
  "simpleProjectHeuristic structureResultMd \<longleftrightarrow> length (split structureResultMd [nl]) < 20"

definition fallbackModes :: "string \<Rightarrow> json" where
  "fallbackModes structureResultMd =
     (if simpleProjectHeuristic structureResultMd
      then JObject [(''customModes'', JArray [developerMode])]
      else JObject [(''customModes'', JArray [projectManagerMode, codeMode])])"

text \<open>The \<open>catch\<close> block, lines 513 to 565.\<close>

definition modesFallback :: "env \<Rightarrow> string \<Rightarrow> modesResult" where
  "modesFallback env structureResultMd =
     \<lparr> roomodesResult = JSON_stringify (numberToString env) (fallbackModes structureResultMd),
       techSpecificSlugs =
         (if simpleProjectHeuristic structureResultMd then [JString ''developer'']
          else [JString ''code'']),
       parsedModesSuccessfully = False \<rparr>"

text \<open>Lines 461 to 566, from the raw reply on.\<close>

definition modesFromRaw :: "env \<Rightarrow> string \<Rightarrow> string \<Rightarrow> modesResult" where
  "modesFromRaw env structureResultMd rawRoomodesResult =
     (case parseModes env (cleanFences (trim rawRoomodesResult)) of
        Some slugs \<Rightarrow>
          \<lparr> roomodesResult = cleanFences (trim rawRoomodesResult),
            techSpecificSlugs = slugs,
            parsedModesSuccessfully = True \<rparr>
      | None \<Rightarrow> modesFallback env structureResultMd)"

definition runModesGenerationStage :: "env \<Rightarrow> string \<Rightarrow> modesResult run" where
  "runModesGenerationStage env structureResultMd =
     andThen (checkCancelled env (Line 450)) (\<lambda>_.
     tryLLM env SModes
       (\<lambda>error. ret (modesFromRaw env structureResultMd ''{}''))
       (\<lambda>rawRoomodesResult. ret (modesFromRaw env structureResultMd rawRoomodesResult)))"

subsection \<open>Stage 6: plan assembly\<close>

text \<open>
  \<open>getPlanAssemblyPrompt\<close> and \<open>getPlanRefinementPrompt\<close> join the slugs when there are any,
  which throws a TypeError where ToString does; nothing else of a prompt bears on the run.
\<close>

definition renderPlanPrompt :: "env \<Rightarrow> json list \<Rightarrow> unit run" where
  "renderPlanPrompt env slugs =
     (if 0 < length slugs
      then (case joinJ (numberToString env) '', '' slugs of
              None \<Rightarrow> throw Error
            | Some slugsString \<Rightarrow> ret ())
      else ret ())"

datatype issue =
    MissingTitle
  | MissingConciseGoal
  | MissingSwitchMode
  | MissingPhaseHeaders
  | MissingNewTask
  | InvalidMessageJson

text \<open>
  \<open>/1\.\s+\*\*.*?Switch.*?\*\*:\s*<switch_mode><mode_slug>[a-z0-9-]+<\/mode_slug><\/switch_mode>/\<close>
\<close>

definition switchModeRegex :: regexp where
  "switchModeRegex =
     \<lparr> body = seqs [Lit ''1.'', plus CSpace, Lit ''**'', lazyStar CDot, Lit ''Switch'',
                     lazyStar CDot, Lit ''**:'', star CSpace, Lit ''<switch_mode><mode_slug>'',
                     plus (COneOf slugChars), Lit ''</mode_slug></switch_mode>''],
       ignoreCase = False, multiline = False \<rparr>"

text \<open>\<open>/<message>([\s\S]*?)<\/message>/g\<close>\<close>

definition messageJsonRegex :: regexp where
  "messageJsonRegex =
     \<lparr> body = seqs [Lit ''<message>'', Grp 1 (lazyStar CAny), Lit ''</message>''],
       ignoreCase = False, multiline = False \<rparr>"

text \<open>
  The \<open>while\<close> loop of lines 616 to 623: \<open>exec\<close> with the \<open>g\<close> flag resumes after the last match
  (the expression has no anchor, so it matches in the rest of the text as it does in the
  whole). The result tells whether some message failed to parse.
\<close>

function invalidMessageJson :: "(string \<Rightarrow> json option) \<Rightarrow> string \<Rightarrow> bool" where
  "invalidMessageJson JSONparse plan =
     (case exec messageJsonRegex plan of
        None \<Rightarrow> False
      | Some m \<Rightarrow>
          (case JSONparse (group1 m) of
             None \<Rightarrow> True
           | Some v \<Rightarrow> invalidMessageJson JSONparse (drop (mIndex m + length (mText m)) plan)))"
  by pat_completeness auto
termination
proof (relation "measure (\<lambda>(JSONparse, plan). length plan)")
  show "wf (measure (\<lambda>(JSONparse, plan). length plan))" by simp
next
  fix JSONparse :: "string \<Rightarrow> json option" and plan :: string and m v
  assume m: "exec messageJsonRegex plan = Some m"
  from exec_sound(2,3) [OF m] have "mIndex m + length (mText m) \<le> length plan"
    and "19 \<le> length (mText m)"
    by (simp_all add: messageJsonRegex_def seqs_def lazyStar_def)
  then show "((JSONparse, drop (mIndex m + length (mText m)) plan), (JSONparse, plan))
      \<in> measure (\<lambda>(JSONparse, plan). length plan)"
    by simp
qed

text \<open>The checks of lines 602 to 623, in their order.\<close>

definition planValidationIssues :: "env \<Rightarrow> string \<Rightarrow> issue list" where
  "planValidationIssues env finalPlan =
     (if \<not> includesStr finalPlan ''# Roo Code Execution Plan:'' then [MissingTitle] else [])
     @ (if \<not> includesStr finalPlan ''**Concise Goal:**'' then [MissingConciseGoal] else [])
     @ (if exec switchModeRegex finalPlan = None then [MissingSwitchMode] else [])
     @ (if \<not> includesStr finalPlan ''## '' then [MissingPhaseHeaders] else [])
     @ (if \<not> includesStr finalPlan ''<new_task>'' then [MissingNewTask] else [])
     @ (if invalidMessageJson (JSON_parse env) finalPlan then [InvalidMessageJson] else [])"

text \<open>
  \<open>slug.includes(word)\<close>: a substring test on a string, a membership test on an array, a
  TypeError (\<open>None\<close>) on any other slug.
\<close>

definition includesJ :: "json \<Rightarrow> string \<Rightarrow> bool option" where
  "includesJ slug word =
     (case slug of
        JString s \<Rightarrow> Some (includesStr s word)
      | JArray xs \<Rightarrow> Some (JString word \<in> set xs)
      | _ \<Rightarrow> None)"

text \<open>\<open>slug.includes('manager') || slug.includes('orchestrator') || slug.includes('lead')\<close>\<close>

definition hintsCoordination :: "json \<Rightarrow> bool option" where
  "hintsCoordination slug =
     (case includesJ slug ''manager'' of
        None \<Rightarrow> None
      | Some True \<Rightarrow> Some True
      | Some False \<Rightarrow>
          (case includesJ slug ''orchestrator'' of
             None \<Rightarrow> None
           | Some True \<Rightarrow> Some True
           | Some False \<Rightarrow> includesJ slug ''lead''))"

text \<open>\<open>xs.find(pred)\<close> with a predicate that may throw: \<open>None\<close> is the TypeError.\<close>

fun findJ :: "(json \<Rightarrow> bool option) \<Rightarrow> json list \<Rightarrow> json option option" where
  "findJ pred [] = Some None"
| "findJ pred (x # xs) =
     (case pred x of
        None \<Rightarrow> None
      | Some True \<Rightarrow> Some (Some x)
      | Some False \<Rightarrow> findJ pred xs)"

text \<open>\<open>found || fallback\<close>\<close>

definition orElseJ :: "json option \<Rightarrow> json \<Rightarrow> json" where
  "orElseJ found d = (case found of None \<Rightarrow> d | Some v \<Rightarrow> if truthy v then v else d)"

definition fallbackMessageContent :: "string \<Rightarrow> json" where
  "fallbackMessageContent conciseCommand =
     JObject
       [(''goal'', JString (''Implement the core logic for: '' @ conciseCommand)),
        (''contextSummary'',
           JString (''The detailed plan generation failed. Refer to the full project structure and analysis provided separately. Key goal: '' @ conciseCommand)),
        (''detailedInstructions'',
           JString (''1. Review the full project analysis and structure markdown.'' @ [nl]
             @ ''2. Implement the core features required to meet the concise goal.'' @ [nl]
             @ ''3. Adhere strictly to any available .clinerules-code or general coding best practices.'' @ [nl]
             @ ''4. Use attempt_completion with a summary upon success.'')),
        (''toolNotes'', JString ''No specific tool notes available due to fallback generation.''),
        (''completionCriteria'',
           JString ''Core functionality implemented as per the concise goal and available analysis.'')]"

text \<open>The template literal of lines 675 to 696.\<close>

definition fallbackPlanText :: "string \<Rightarrow> string \<Rightarrow> string \<Rightarrow> string \<Rightarrow> string" where
  "fallbackPlanText conciseCommand primarySlug delegateSlug message =
     [nl] @ ''# Roo Code Execution Plan: Fallback Plan'' @ [nl]
     @ [nl] @ ''**Concise Goal:** '' @ conciseCommand @ [nl]
     @ [nl] @ ''*(Ensure generated .roomodes and .clinerules files are saved in the project root before starting this plan. Plan generation encountered issues, using fallback.)*'' @ [nl]
     @ [nl] @ ''## Phase 1: Initialization (Fallback)'' @ [nl]
     @ [nl] @ ''1.  **Switch to Primary Mode:**'' @ [nl]
     @ ''    <switch_mode><mode_slug>'' @ primarySlug @ ''</mode_slug></switch_mode>'' @ [nl]
     @ ''    *(This mode will now delegate the main task based on the fallback plan below)*'' @ [nl]
     @ [nl] @ ''## Phase 2: Core Implementation (Fallback)'' @ [nl]
     @ [nl] @ ''2.  **Delegate General Implementation Task:**'' @ [nl]
     @ ''    <new_task>'' @ [nl]
     @ ''    <mode>'' @ delegateSlug @ ''</mode> *(Fallback delegate mode)*'' @ [nl]
     @ ''    <message>'' @ message @ ''</message>'' @ [nl]
     @ ''    </new_task>'' @ [nl]
     @ ''*(Primary mode should monitor completion)*'' @ [nl]"

text \<open>
  Lines 658 to 698: the two \<open>find\<close> calls, then the template, whose slugs go through
  ToString. A TypeError on the way is \<open>None\<close>.
\<close>

definition fallbackPlan :: "env \<Rightarrow> string \<Rightarrow> json list \<Rightarrow> string option" where
  "fallbackPlan env conciseCommand slugs =
     (case findJ hintsCoordination slugs of
        None \<Rightarrow> None
      | Some primary \<Rightarrow>
          (case findJ (\<lambda>slug. map_option Not (hintsCoordination slug)) slugs of
             None \<Rightarrow> None
           | Some delegate \<Rightarrow>
               (case toStringJ (numberToString env) (orElseJ primary (JString ''developer'')) of
                  None \<Rightarrow> None
                | Some fallbackPrimarySlug \<Rightarrow>
                    (case toStringJ (numberToString env) (orElseJ delegate (JString ''code'')) of
                       None \<Rightarrow> None
                     | Some fallbackDelegateSlug \<Rightarrow>
                         Some (fallbackPlanText conciseCommand fallbackPrimarySlug
                                 fallbackDelegateSlug
                                 (JSON_stringify (numberToString env)
                                    (fallbackMessageContent conciseCommand)))))))"

definition planFallback :: "env \<Rightarrow> string \<Rightarrow> json list \<Rightarrow> (string \<times> bool) run" where
  "planFallback env conciseCommand slugs =
     (case fallbackPlan env conciseCommand slugs of
        None \<Rightarrow> throw Error
      | Some finalPlan \<Rightarrow> ret (finalPlan, False))"

text \<open>The result is \<open>(finalPlan, planIsValid)\<close>.\<close>

definition runPlanAssemblyStage ::
    "env \<Rightarrow> string \<Rightarrow> json list \<Rightarrow> (string \<times> bool) run" where
  "runPlanAssemblyStage env conciseCommand slugs =
     andThen (checkCancelled env (Line 583)) (\<lambda>_.
     andThen (renderPlanPrompt env slugs) (\<lambda>_.
     tryLLM env SPlan (\<lambda>error. planFallback env conciseCommand slugs) (\<lambda>finalPlan.
       if finalPlan \<noteq> [] then
         (if length (planValidationIssues env finalPlan) = 0 then ret (finalPlan, True)
          else
            andThen (checkCancelled env (Line 630)) (\<lambda>_.
            andThen (renderPlanPrompt env slugs) (\<lambda>_.
            tryLLM env SPlanRefine (\<lambda>error. planFallback env conciseCommand slugs)
              (\<lambda>refined.
                 if refined \<noteq> [] \<and> includesStr refined ''# Roo Code Execution Plan:''
                 then ret (refined, True)
                 else planFallback env conciseCommand slugs))))
       else planFallback env conciseCommand slugs)))"

subsection \<open>Stage 6.5: plan review\<close>

definition runPlanRefinementStage :: "env \<Rightarrow> string \<Rightarrow> string run" where
  "runPlanRefinementStage env finalPlan =
     andThen (checkCancelled env (Line 715)) (\<lambda>_.
     tryLLM env SPlanReview (\<lambda>refinementError. ret finalPlan) (\<lambda>planRefinementResponse.
       if toUpperCase (trim planRefinementResponse) \<noteq> ''OK''
       then ret (trim planRefinementResponse)
       else ret finalPlan))"

subsection \<open>The engine\<close>

text \<open>
  \<open>Promise.all\<close> over the five stages 4 to 5: all five are started and run to their end,
  so the sites called are those of all five; the group returns when all return and throws
  when one throws. (These stages throw nothing but a CancellationError.)
\<close>

definition promiseAll5 ::
    "'a run \<Rightarrow> 'b run \<Rightarrow> 'c run \<Rightarrow> 'd run \<Rightarrow> 'e run \<Rightarrow> ('a \<times> 'b \<times> 'c \<times> 'd \<times> 'e) run" where
  "promiseAll5 p1 p2 p3 p4 p5 =
     (case (fst p1, fst p2, fst p3, fst p4, fst p5) of
        (Inr a, Inr b, Inr c, Inr d, Inr e) \<Rightarrow> Inr (a, b, c, d, e)
      | (Inl x, _, _, _, _) \<Rightarrow> Inl x
      | (_, Inl x, _, _, _) \<Rightarrow> Inl x
      | (_, _, Inl x, _, _) \<Rightarrow> Inl x
      | (_, _, _, Inl x, _) \<Rightarrow> Inl x
      | (_, _, _, _, Inl x) \<Rightarrow> Inl x,
      snd p1 @ snd p2 @ snd p3 @ snd p4 @ snd p5)"

record engineResult =
  artifacts :: "string \<Rightarrow> string option"
  structureList :: "structItem list"
  outlines :: "string \<Rightarrow> string option"

text \<open>\<open>if (value) generatedArtifacts[key] = value\<close>\<close>

definition putIf :: "string \<Rightarrow> string option \<Rightarrow> (string \<Rightarrow> string option) \<Rightarrow> (string \<Rightarrow> string option)" where
  "putIf key v m = (case v of None \<Rightarrow> m | Some s \<Rightarrow> if s = [] then m else m(key \<mapsto> s))"

definition putFootgun ::
    "string option \<times> string option \<Rightarrow> (string \<Rightarrow> string option) \<Rightarrow> (string \<Rightarrow> string option)" where
  "putFootgun fg m =
     (case fg of
        (Some footgunPromptResult, Some footgunTargetMode) \<Rightarrow>
          if footgunPromptResult \<noteq> [] \<and> footgunTargetMode \<noteq> []
          then m(''.roo/system-prompt-'' @ footgunTargetMode \<mapsto> footgunPromptResult)
          else m
      | _ \<Rightarrow> m)"

text \<open>
  The \<open>catch\<close> of lines 827 to 839 throws a CancellationError again and wraps any other
  error in an \<open>Error\<close>, so the engine throws what its body throws.
\<close>

definition runAdvancedReasoningEngine :: "env \<Rightarrow> engineResult run" where
  "runAdvancedReasoningEngine env =
     andThen (runAnalysisStage env) (\<lambda>analysisResult.
     andThen (checkCancelled env (Line 753)) (\<lambda>_.
     andThen (runStructuringStage env) (\<lambda>(structureResultMd0, conciseCommand).
     andThen (checkCancelled env (Line 757)) (\<lambda>_.
     andThen (runOutlineRefinementStage env structureResultMd0) (\<lambda>structureResultMd.
     andThen (checkCancelled env (Line 761)) (\<lambda>_.
     andThen (promiseAll5
                (runRulesGenerationStage env)
                (runRooignoreGenerationStage env)
                (runWorkspaceRulesGenerationStage env)
                (runFootgunPromptGenerationStage env analysisResult structureResultMd)
                (runModesGenerationStage env structureResultMd))
       (\<lambda>(rulesResult, rooignoreResult, workspaceRulesResult, footgun, modes).
     andThen (checkCancelled env (Line 776)) (\<lambda>_.
     andThen (runPlanAssemblyStage env conciseCommand (techSpecificSlugs modes))
       (\<lambda>(finalPlan0, planIsValid).
     andThen (checkCancelled env (Line 809)) (\<lambda>_.
     andThen (if planIsValid \<and> parsedModesSuccessfully modes \<and> roomodesResult modes \<noteq> []
              then runPlanRefinementStage env finalPlan0
              else ret finalPlan0) (\<lambda>finalPlan.
     andThen (checkCancelled env (Line 819)) (\<lambda>_.
       ret \<lparr> artifacts =
               putIf ''roo-plan.md'' (Some finalPlan)
                 (putIf ''.roomodes'' (Some (roomodesResult modes))
                   (putFootgun footgun
                     (putIf ''.clinerules'' workspaceRulesResult
                       (putIf ''.rooignore'' rooignoreResult
                         (putIf ''.clinerules-code'' rulesResult Map.empty))))),
             structureList = parseStructureFromJsonMd (JSON_parse env) structureResultMd,
             outlines = parseOutlinesFromMd structureResultMd \<rparr>))))))))))))"

section \<open>Notions used to state the properties\<close>

text \<open>
  The text of a document before its first separator line, and the text between the first
  separator and the next one (or the end); the document that stage 2 splits, which is the
  validation reply when there is one other than \<open>OK\<close>.
\<close>

definition beforeSeparator :: "string \<Rightarrow> string" where
  "beforeSeparator doc = (case indexOf doc separator of None \<Rightarrow> doc | Some i \<Rightarrow> take i doc)"

definition afterSeparator :: "string \<Rightarrow> string option" where
  "afterSeparator doc =
     (case indexOf doc separator of
        None \<Rightarrow> None
      | Some i \<Rightarrow> Some (beforeSeparator (drop (i + length separator) doc)))"

definition validatedStructure :: "env \<Rightarrow> string \<Rightarrow> string" where
  "validatedStructure env raw =
     (case callLLM env SStructureValidation of
        Inl e \<Rightarrow> raw
      | Inr v \<Rightarrow> if v \<noteq> [] \<and> toUpperCase (trim v) \<noteq> ''OK'' then v else raw)"




definition sectionSpan :: "string \<Rightarrow> string" where
  "sectionSpan rest = (case indexOf rest ''##'' of None \<Rightarrow> rest | Some i \<Rightarrow> take (i + 2) rest)"


text \<open>
  \<open>blankTail s = Some k\<close>: \<open>k\<close> is the greatest number of white-space characters at the start
  of \<open>s\<close> after which \<open>s\<close> ends or a line ends. \<open>closingFenceAt s = Some k\<close>: \<open>s\<close> starts with
  three backquotes that close their line in this way. \<open>firstClosingFence md = Some (j, k)\<close>:
  \<open>j\<close> is the least index of \<open>md\<close> where such a fence starts.
\<close>

fun blankTail :: "string \<Rightarrow> nat option" where
  "blankTail [] = Some 0"
| "blankTail (c # cs) =
     (if isWhiteSpace c
      then (case blankTail cs of
              Some k \<Rightarrow> Some (Suc k)
            | None \<Rightarrow> if isLineTerminator c then Some 0 else None)
      else None)"

definition closingFenceAt :: "string \<Rightarrow> nat option" where
  "closingFenceAt s = (if prefix ''```'' s then blankTail (drop 3 s) else None)"

fun firstClosingFence :: "string \<Rightarrow> (nat \<times> nat) option" where
  "firstClosingFence [] = None"
| "firstClosingFence (c # cs) =
     (case closingFenceAt (c # cs) of
        Some k \<Rightarrow> Some (0, k)
      | None \<Rightarrow> map_option (\<lambda>(i, k). (Suc i, k)) (firstClosingFence cs))"
section \<open>Concrete environments\<close>

text \<open>
  The concrete environments parse with \<open>jsonParse\<close> and print whole numbers in decimal
  digits; their texts hold no other numbers.
\<close>

function showNat :: "nat \<Rightarrow> string" where
  "showNat n = (if n < 10 then [hexDigit n] else showNat (n div 10) @ [hexDigit (n mod 10)])"
  by pat_completeness auto
termination
  by (relation "measure id") auto

definition showNumber :: "rat \<Rightarrow> string" where
  "showNumber x = (if x < 0 then ''-'' else []) @ showNat (nat \<bar>\<lfloor>x\<rfloor>\<bar>)"

text \<open>
  \<open>scriptEnv script\<close>: nobody cancels, the client is initialised, and every attempt at site
  \<open>s\<close> does \<open>script s\<close>.
\<close>

definition scriptEnv :: "(site \<Rightarrow> attempt) \<Rightarrow> env" where
  "scriptEnv script =
     \<lparr> tokenAt = (\<lambda>_. False), initializationError = False,
       generate = (\<lambda>s n. script s), JSON_parse = jsonParse, numberToString = showNumber \<rparr>"

definition okEnv :: env where
  "okEnv = scriptEnv (\<lambda>s. if s = SAnalysis then Returned ''draft''
                           else if s = SAnalysisValidation then Returned '' ok ''
                           else Returned '' new plan '')"

definition paddedEnv :: env where
  "paddedEnv = scriptEnv (\<lambda>s. if s = SAnalysis then Returned ''draft''
                               else Returned '' B '')"

text \<open>The flag is set from the start.\<close>

definition cancelledEnv :: env where
  "cancelledEnv = (scriptEnv (\<lambda>s. Returned ''text'')) \<lparr> tokenAt := (\<lambda>_. True) \<rparr>"

text \<open>The model answers stage 5 with a mode set that holds the orchestrator alone.\<close>

definition orchestratorText :: string where
  "orchestratorText = ''{\"customModes\":[{\"slug\":\"project-orchestrator\"}]}''"

definition orchestratorEnv :: env where
  "orchestratorEnv = scriptEnv (\<lambda>s. Returned orchestratorText)"

text \<open>Every call of the model is blocked.\<close>

definition silentEnv :: env where
  "silentEnv = scriptEnv (\<lambda>s. Blocked)"

text \<open>A document of twenty empty lines.\<close>

definition twentyLines :: string where
  "twentyLines = replicate 19 nl"

text \<open>Stage 2 receives a document with nothing but blanks after the separator.\<close>

definition halfEnv :: env where
  "halfEnv = scriptEnv (\<lambda>s. if s = SStructure then Returned (''# Plan '' @ separator @ ''  '')
                             else Returned ''OK'')"







text \<open>A structure document whose JSON block holds the two entries of the path examples.\<close>

definition structureJson :: string where
  "structureJson = ''[{\"type\": \"file\", \"path\": \"./src/index.js/\"}, {\"type\": \"file\", \"path\": \"gitignore\"}]''"

definition structureDoc :: string where
  "structureDoc = ''## Proposed Structure'' @ [nl] @ ''```json'' @ [nl] @ structureJson @ [nl] @ ''```''"

definition indexEntry :: json where
  "indexEntry = JObject [(''type'', JString ''file''), (''path'', JString ''./src/index.js/'')]"

definition gitignoreEntry :: json where
  "gitignoreEntry = JObject [(''type'', JString ''file''), (''path'', JString ''gitignore'')]"

text \<open>
  A whole run: the analysis, the structure and the mode set arrive, every other call is
  blocked.
\<close>

definition pipelineEnv :: env where
  "pipelineEnv = scriptEnv (\<lambda>s. if s = SAnalysis then Returned ''A to-do list''
                                 else if s = SStructure then Returned ''# Structure''
                                 else if s = SModes then Returned orchestratorText
                                 else Blocked)"



section \<open>Facts about the model\<close>

lemma fst_andThen:
  "fst (andThen m f) = (case fst m of Inl e \<Rightarrow> Inl e | Inr x \<Rightarrow> fst (f x))"
  by (cases m) (auto simp add: andThen_def split: sum.splits prod.splits)

lemma snd_andThen:
  "snd (andThen m f) = (case fst m of Inl e \<Rightarrow> snd m | Inr x \<Rightarrow> snd m @ snd (f x))"
  by (cases m) (auto simp add: andThen_def split: sum.splits prod.splits)

lemma fst_checkCancelled:
  "fst (checkCancelled env p) = (if tokenAt env p then Inl CancellationError else Inr ())"
  by (simp add: checkCancelled_def throw_def ret_def)

lemma snd_checkCancelled: "snd (checkCancelled env p) = []"
  by (simp add: checkCancelled_def throw_def ret_def)

lemma fst_tryLLM:
  "fst (tryLLM env s h c) = (case callLLM env s of Inl e \<Rightarrow> fst (h e) | Inr t \<Rightarrow> fst (c t))"
  by (simp add: tryLLM_def fst_andThen split: sum.splits)

lemma snd_tryLLM:
  "snd (tryLLM env s h c) = s # (case callLLM env s of Inl e \<Rightarrow> snd (h e) | Inr t \<Rightarrow> snd (c t))"
  by (simp add: tryLLM_def snd_andThen split: sum.splits)

lemma fst_ret: "fst (ret x) = Inr x" and snd_ret: "snd (ret x) = []"
  and fst_throw: "fst (throw e) = Inl e" and snd_throw: "snd (throw e) = []"
  by (simp_all add: ret_def throw_def)

lemmas run_fst = fst_andThen fst_checkCancelled fst_tryLLM fst_ret fst_throw
lemmas run_snd = snd_andThen snd_checkCancelled snd_tryLLM snd_ret snd_throw

lemma callLLM_scriptEnv_Returned:
  "script s = Returned t \<Longrightarrow> trim t \<noteq> [] \<Longrightarrow> callLLM (scriptEnv script) s = Inr t"
  by (auto simp add: callLLM_def scriptEnv_def eval_nat_numeral trim_def trimEnd_def
      trimStart_def)

lemma tokenAt_scriptEnv: "tokenAt (scriptEnv script) p = False"
  by (simp add: scriptEnv_def)

lemma trim_examples:
  "trim '' ok '' = ''ok''"
  "trim '' new plan '' = ''new plan''"
  "trim ''draft'' = ''draft''"
  "trim '' B '' = ''B''"
  by (simp_all add: trim_def trimEnd_def trimStart_def isWhiteSpace_def)

lemma toUpperCase_examples:
  "toUpperCase ''ok'' = ''OK''"
  "toUpperCase ''new plan'' \<noteq> ''OK''"
  "toUpperCase ''B'' \<noteq> ''OK''"
  by (simp_all add: toUpperCase_def upperOf_def asciiLower_def asciiUpper_def
      latin1Lower_def latin1Upper_def)





section \<open>The OK/replace stages\<close>

text \<open>
  Claim C3, as amended. In stage 1, when both calls return and nobody cancels, the
  validation reply \<open>r\<close> decides: if \<open>r\<close> trimmed and upper-cased is \<open>OK\<close> the analysis is kept,
  otherwise \<open>r\<close> itself, exactly as received, becomes the analysis. In stage 6.5 the plan is
  kept on \<open>OK\<close> and replaced by the trimmed reply otherwise.
\<close>

theorem ok_replace_stages:
  "(\<not> tokenAt env (Line 56) \<and> callLLM env SAnalysis = Inr a \<and>
    \<not> tokenAt env (Line 68) \<and> callLLM env SAnalysisValidation = Inr r \<longrightarrow>
      fst (runAnalysisStage env) = Inr (if toUpperCase (trim r) = ''OK'' then a else r)) \<and>
   (\<not> tokenAt env (Line 715) \<and> callLLM env SPlanReview = Inr r' \<longrightarrow>
      fst (runPlanRefinementStage env plan) =
        Inr (if toUpperCase (trim r') = ''OK'' then plan else trim r'))"
  by (simp add: runAnalysisStage_def runPlanRefinementStage_def tryLLM_def checkCancelled_def
      andThen_def ret_def throw_def)

theorem ok_replace_stages_witness:
  "fst (runAnalysisStage okEnv) = Inr ''draft'' \<and>
   fst (runPlanRefinementStage okEnv ''plan'') = Inr ''new plan''"
  using ok_replace_stages [of okEnv "''draft''" "'' ok ''" "'' new plan ''" "''plan''"]
  by (simp add: okEnv_def callLLM_scriptEnv_Returned tokenAt_scriptEnv trim_examples
      toUpperCase_examples)

text \<open>
  Claim C3 as stated fails in stage 1: the reply \<open>'' B ''\<close> is not \<open>OK\<close>, and the analysis
  becomes \<open>'' B ''\<close> with its blanks, not the trimmed \<open>''B''\<close>.
\<close>

theorem analysis_validation_keeps_blanks:
  "callLLM paddedEnv SAnalysisValidation = Inr '' B '' \<and>
   toUpperCase (trim '' B '') \<noteq> ''OK'' \<and>
   fst (runAnalysisStage paddedEnv) = Inr '' B '' \<and>
   fst (runAnalysisStage paddedEnv) \<noteq> Inr (trim '' B '')"
  by (simp add: paddedEnv_def callLLM_scriptEnv_Returned tokenAt_scriptEnv trim_examples
      toUpperCase_examples runAnalysisStage_def tryLLM_def checkCancelled_def
      andThen_def ret_def throw_def)

section \<open>Cancellation before the first stage\<close>

text \<open>
  Claim C8. If the flag is set when stage 1 reads it first (line 56), the engine throws a
  CancellationError, which is not the ordinary \<open>Error\<close>; no site has called \<open>callLLM\<close>, and no
  result is returned.
\<close>

theorem cancelled_before_analysis:
  "tokenAt env (Line 56) \<Longrightarrow> runAdvancedReasoningEngine env = (Inl CancellationError, [])"
  by (simp add: runAdvancedReasoningEngine_def runAnalysisStage_def andThen_def
      checkCancelled_def throw_def)

theorem cancelled_before_analysis_witness:
  "tokenAt cancelledEnv (Line 56) \<and>
   runAdvancedReasoningEngine cancelledEnv = (Inl CancellationError, []) \<and>
   CancellationError \<noteq> Error"
  using cancelled_before_analysis [of cancelledEnv]
  by (simp add: cancelledEnv_def)

section \<open>The delegate slugs of stage 5\<close>

lemma parseModes_delegates:
  assumes "parseModes env s = Some d"
  shows "d \<noteq> [] \<and> JString ''project-orchestrator'' \<notin> set d"
  using assms
  by (auto simp add: parseModes_def Let_def split: option.splits json.splits if_splits)

lemma modesFromRaw_delegates:
  "techSpecificSlugs (modesFromRaw env md raw) \<noteq> [] \<and>
   JString ''project-orchestrator'' \<notin> set (techSpecificSlugs (modesFromRaw env md raw))"
  using parseModes_delegates [of env "cleanFences (trim raw)"]
  by (auto simp add: modesFromRaw_def modesFallback_def split: option.splits)

lemma runModes_cases:
  assumes "fst (runModesGenerationStage env md) = Inr r"
  shows "\<exists>raw. r = modesFromRaw env md raw"
  using assms
  by (auto simp add: runModesGenerationStage_def run_fst split: if_splits sum.splits)

text \<open>
  Claim C9. Whenever stage 5 returns, after a successful parse or after the fallback, its
  list of delegate slugs is not empty and does not hold \<open>project-orchestrator\<close>. After a
  successful parse the list is the list of the truthy slugs without \<open>project-orchestrator\<close>,
  or the single slug \<open>code\<close> when nothing else is left, whatever the modes are.
\<close>

theorem delegate_slugs:
  "(fst (runModesGenerationStage env md) = Inr r \<longrightarrow>
      techSpecificSlugs r \<noteq> [] \<and> JString ''project-orchestrator'' \<notin> set (techSpecificSlugs r)) \<and>
   (JSON_parse env s = Some parsedModes \<and>
    getProp parsedModes ''customModes'' = Some (JArray customModes) \<and>
    mapSlug customModes = Some slugs \<and> parseModes env s = Some d \<longrightarrow>
      d = (if filter (\<lambda>slug. slug \<noteq> JString ''project-orchestrator'') (filterBoolean slugs) = []
           then [JString ''code'']
           else filter (\<lambda>slug. slug \<noteq> JString ''project-orchestrator'') (filterBoolean slugs)))"
proof -
  have a: "techSpecificSlugs r \<noteq> [] \<and> JString ''project-orchestrator'' \<notin> set (techSpecificSlugs r)"
    if "fst (runModesGenerationStage env md) = Inr r"
  proof -
    from that obtain raw where "r = modesFromRaw env md raw" by (auto dest: runModes_cases)
    then show ?thesis using modesFromRaw_delegates by simp
  qed
  have b: "d = (if filter (\<lambda>slug. slug \<noteq> JString ''project-orchestrator'') (filterBoolean slugs) = []
           then [JString ''code'']
           else filter (\<lambda>slug. slug \<noteq> JString ''project-orchestrator'') (filterBoolean slugs))"
    if "JSON_parse env s = Some parsedModes" "getProp parsedModes ''customModes'' = Some (JArray customModes)"
      "mapSlug customModes = Some slugs" "parseModes env s = Some d"
    using that by (auto simp add: parseModes_def Let_def split: option.splits if_splits)
  from a b show ?thesis by blast
qed

theorem delegate_slugs_witness:
  "fst (runModesGenerationStage orchestratorEnv ''x'') =
     Inr \<lparr> roomodesResult = orchestratorText, techSpecificSlugs = [JString ''code''],
           parsedModesSuccessfully = True \<rparr> \<and>
   parseModes orchestratorEnv orchestratorText = Some [JString ''code'']"
proof -
  have 1: "fst (runModesGenerationStage orchestratorEnv ''x'') =
     Inr \<lparr> roomodesResult = orchestratorText, techSpecificSlugs = [JString ''code''],
           parsedModesSuccessfully = True \<rparr>"
    by code_simp
  have 2: "JSON_parse orchestratorEnv orchestratorText =
     Some (JObject [(''customModes'', JArray [JObject [(''slug'', JString ''project-orchestrator'')]])])"
    by code_simp
  have 3: "mapSlug [JObject [(''slug'', JString ''project-orchestrator'')]] =
     Some [Some (JString ''project-orchestrator'')]"
    by code_simp
  have 4: "parseModes orchestratorEnv orchestratorText = Some [JString ''code'']"
    by code_simp
  from delegate_slugs [of orchestratorEnv "''x''"
      "\<lparr> roomodesResult = orchestratorText, techSpecificSlugs = [JString ''code''],
         parsedModesSuccessfully = True \<rparr>"
      orchestratorText
      "JObject [(''customModes'', JArray [JObject [(''slug'', JString ''project-orchestrator'')]])]"
      "[JObject [(''slug'', JString ''project-orchestrator'')]]"
      "[Some (JString ''project-orchestrator'')]" "[JString ''code'']"]
  show ?thesis using 1 2 3 4 by simp
qed

section \<open>The fallback mode set\<close>

lemma cleanFences_braces: "cleanFences (trim ''{}'') = ''{}''"
  by code_simp

lemma parseModes_None_iff:
  "JSON_parse env s = None \<Longrightarrow> parseModes env s = None"
  "JSON_parse env s = Some v \<Longrightarrow> \<forall>modes. getProp v ''customModes'' = Some (JArray modes) \<longrightarrow> modes = []
     \<Longrightarrow> parseModes env s = None"
  by (auto simp add: parseModes_def split: option.splits json.splits)

lemma slug_facts:
  "getProp developerMode ''slug'' = Some (JString ''developer'')"
  "getProp projectManagerMode ''slug'' = Some (JString ''project-manager'')"
  "getProp codeMode ''slug'' = Some (JString ''code'')"
  by (simp_all add: developerMode_def projectManagerMode_def codeMode_def)

text \<open>
  The texts of the two fallback mode sets are JSON texts of these mode sets.
\<close>

lemma developer_fallback_parses_back: "jsonParse (JSON_stringify showNumber (JObject [(''customModes'', JArray [developerMode])])) = Some (JObject [(''customModes'', JArray [developerMode])])"
  by code_simp
lemma manager_fallback_parses_back: "jsonParse (JSON_stringify showNumber (JObject [(''customModes'', JArray [projectManagerMode, codeMode])])) = Some (JObject [(''customModes'', JArray [projectManagerMode, codeMode])])"
  by code_simp

text \<open>
  Claim C2. Stage 5 falls back when the call fails (the reply is then \<open>{}\<close>, which parses to
  the empty object), when the cleaned reply does not parse, and when the parsed value has
  no non-empty \<open>customModes\<close> array; a result it marks as not parsed is the fallback. The
  fallback is marked as not parsed. For a document of fewer than 20 lines its text is the
  JSON text of one mode, with slug \<open>developer\<close>, and the delegates are \<open>developer\<close>; for a
  longer document it is the text of two modes, with slugs \<open>project-manager\<close> and \<open>code\<close>, and
  the delegates are \<open>code\<close>.
\<close>

theorem modes_fallback:
  "(\<not> tokenAt env (Line 450) \<and>
    ((\<exists>e. callLLM env SModes = Inl e) \<and> JSON_parse env ''{}'' = Some (JObject [])
     \<or> (\<exists>raw. callLLM env SModes = Inr raw \<and> JSON_parse env (cleanFences (trim raw)) = None)
     \<or> (\<exists>raw v. callLLM env SModes = Inr raw \<and> JSON_parse env (cleanFences (trim raw)) = Some v
           \<and> (\<forall>modes. getProp v ''customModes'' = Some (JArray modes) \<longrightarrow> modes = [])))
      \<longrightarrow> fst (runModesGenerationStage env md) = Inr (modesFallback env md)) \<and>
   (fst (runModesGenerationStage env md) = Inr r \<and> \<not> parsedModesSuccessfully r
      \<longrightarrow> r = modesFallback env md) \<and>
   \<not> parsedModesSuccessfully (modesFallback env md) \<and>
   (length (split md [nl]) < 20 \<longrightarrow>
      roomodesResult (modesFallback env md) =
        JSON_stringify (numberToString env) (JObject [(''customModes'', JArray [developerMode])]) \<and>
      getProp developerMode ''slug'' = Some (JString ''developer'') \<and>
      techSpecificSlugs (modesFallback env md) = [JString ''developer'']) \<and>
   (\<not> length (split md [nl]) < 20 \<longrightarrow>
      roomodesResult (modesFallback env md) =
        JSON_stringify (numberToString env)
          (JObject [(''customModes'', JArray [projectManagerMode, codeMode])]) \<and>
      getProp projectManagerMode ''slug'' = Some (JString ''project-manager'') \<and>
      getProp codeMode ''slug'' = Some (JString ''code'') \<and>
      techSpecificSlugs (modesFallback env md) = [JString ''code''])"
proof -
  have trig: "fst (runModesGenerationStage env md) = Inr (modesFallback env md)"
    if "\<not> tokenAt env (Line 450)"
      and "(\<exists>e. callLLM env SModes = Inl e) \<and> JSON_parse env ''{}'' = Some (JObject [])
     \<or> (\<exists>raw. callLLM env SModes = Inr raw \<and> JSON_parse env (cleanFences (trim raw)) = None)
     \<or> (\<exists>raw v. callLLM env SModes = Inr raw \<and> JSON_parse env (cleanFences (trim raw)) = Some v
           \<and> (\<forall>modes. getProp v ''customModes'' = Some (JArray modes) \<longrightarrow> modes = []))"
    using that
    by (auto simp add: runModesGenerationStage_def run_fst modesFromRaw_def cleanFences_braces
        parseModes_None_iff split: sum.splits)
  have bk: "r = modesFallback env md"
    if "fst (runModesGenerationStage env md) = Inr r" "\<not> parsedModesSuccessfully r"
    using that
    by (auto simp add: runModesGenerationStage_def run_fst modesFromRaw_def
        split: sum.splits if_splits option.splits)
  have content: "\<not> parsedModesSuccessfully (modesFallback env md)"
    "length (split md [nl]) < 20 \<Longrightarrow>
      roomodesResult (modesFallback env md) =
        JSON_stringify (numberToString env) (JObject [(''customModes'', JArray [developerMode])]) \<and>
      techSpecificSlugs (modesFallback env md) = [JString ''developer'']"
    "\<not> length (split md [nl]) < 20 \<Longrightarrow>
      roomodesResult (modesFallback env md) =
        JSON_stringify (numberToString env)
          (JObject [(''customModes'', JArray [projectManagerMode, codeMode])]) \<and>
      techSpecificSlugs (modesFallback env md) = [JString ''code'']"
    by (simp_all add: modesFallback_def fallbackModes_def simpleProjectHeuristic_def)
  from trig bk content slug_facts show ?thesis by blast
qed

theorem modes_fallback_witness:
  "fst (runModesGenerationStage silentEnv ''one line'') = Inr (modesFallback silentEnv ''one line'') \<and>
   techSpecificSlugs (modesFallback silentEnv ''one line'') = [JString ''developer''] \<and>
   fst (runModesGenerationStage silentEnv twentyLines) = Inr (modesFallback silentEnv twentyLines) \<and>
   techSpecificSlugs (modesFallback silentEnv twentyLines) = [JString ''code'']"
proof -
  have t: "\<not> tokenAt silentEnv (Line 450)"
    by (simp add: silentEnv_def tokenAt_scriptEnv)
  have e1: "callLLM silentEnv SModes = Inl Error" by code_simp
  have e2: "length (split ''one line'' [nl]) < 20" by code_simp
  have e3: "\<not> length (split twentyLines [nl]) < 20" by code_simp
  have e4: "JSON_parse silentEnv ''{}'' = Some (JObject [])" by code_simp
  from modes_fallback [of silentEnv "''one line''"] t e1 e2 e4
  have a: "fst (runModesGenerationStage silentEnv ''one line'') = Inr (modesFallback silentEnv ''one line'') \<and>
   techSpecificSlugs (modesFallback silentEnv ''one line'') = [JString ''developer'']"
    by blast
  from modes_fallback [of silentEnv twentyLines] t e1 e3 e4
  have b: "fst (runModesGenerationStage silentEnv twentyLines) = Inr (modesFallback silentEnv twentyLines) \<and>
   techSpecificSlugs (modesFallback silentEnv twentyLines) = [JString ''code'']"
    by blast
  from a b show ?thesis by blast
qed

section \<open>The split of stage 2\<close>

lemma splitAux_skip:
  "k \<le> length s \<Longrightarrow> splitAux sep acc k s = splitAux sep acc 0 (drop k s)"
proof (induction s arbitrary: k)
  case Nil
  then show ?case by simp
next
  case (Cons c cs)
  then show ?case by (cases k) simp_all
qed

lemma indexOf_Nil: "p \<noteq> [] \<Longrightarrow> indexOf [] p = None"
  by simp

lemma splitAux_indexOf:
  assumes "sep \<noteq> []"
  shows "splitAux sep acc 0 s =
     (case indexOf s sep of
        None \<Rightarrow> [rev acc @ s]
      | Some i \<Rightarrow> (rev acc @ take i s) # splitAux sep [] 0 (drop (i + length sep) s))"
proof (induction s arbitrary: acc)
  case Nil
  with assms show ?case by simp
next
  case (Cons c cs)
  show ?case
  proof (cases "prefix sep (c # cs)")
    case True
    then have "length sep \<le> length (c # cs)" by (rule prefix_length_le)
    with assms have le: "length sep - 1 \<le> length cs" by simp
    from assms have eq: "drop (length sep - 1) cs = drop (length sep) (c # cs)"
      by (cases sep) simp_all
    from True eq splitAux_skip [OF le, of sep "[]"] show ?thesis by simp
  next
    case False
    with Cons.IH [of "c # acc"] show ?thesis
      by (simp split: option.splits)
  qed
qed

lemma split_pieces:
  "nthOpt (split doc separator) 0 = Some (beforeSeparator doc)"
  "nthOpt (split doc separator) (Suc 0) = afterSeparator doc"
proof -
  have ne: "separator \<noteq> []" by (simp add: separator_def)
  show "nthOpt (split doc separator) 0 = Some (beforeSeparator doc)"
    unfolding split_def
    by (subst splitAux_indexOf [OF ne]) (simp add: beforeSeparator_def split: option.splits)
  show "nthOpt (split doc separator) (Suc 0) = afterSeparator doc"
    unfolding split_def
    by (subst splitAux_indexOf [OF ne], subst splitAux_indexOf [OF ne])
      (simp add: beforeSeparator_def afterSeparator_def split: option.splits)
qed

lemma placeholders_nonempty: "structurePlaceholder \<noteq> []" "commandPlaceholder \<noteq> []"
  by (simp_all add: structurePlaceholder_def commandPlaceholder_def)

text \<open>
  Claim C7. When the structuring call returns and nobody cancels, stage 2 returns the split
  of the validated document. The first component is the trimmed text before the separator
  and the second the trimmed text after it, each replaced by its fixed placeholder when it
  is empty or missing; neither component is ever empty.
\<close>

theorem structuring_split:
  "(\<not> tokenAt env (Line 102) \<and> callLLM env SStructure = Inr raw \<and> \<not> tokenAt env (Line 114) \<longrightarrow>
      fst (runStructuringStage env) = Inr (splitStructure (validatedStructure env raw))) \<and>
   fst (splitStructure doc) =
     (if trim (beforeSeparator doc) = [] then structurePlaceholder
      else trim (beforeSeparator doc)) \<and>
   snd (splitStructure doc) =
     (case afterSeparator doc of
        None \<Rightarrow> commandPlaceholder
      | Some command \<Rightarrow> if trim command = [] then commandPlaceholder else trim command) \<and>
   fst (splitStructure doc) \<noteq> [] \<and> snd (splitStructure doc) \<noteq> []"
proof -
  have run: "\<not> tokenAt env (Line 102) \<and> callLLM env SStructure = Inr raw \<and> \<not> tokenAt env (Line 114) \<longrightarrow>
      fst (runStructuringStage env) = Inr (splitStructure (validatedStructure env raw))"
    by (simp add: runStructuringStage_def run_fst validatedStructure_def split: sum.splits)
  have l: "fst (splitStructure doc) =
     (if trim (beforeSeparator doc) = [] then structurePlaceholder
      else trim (beforeSeparator doc))"
    by (simp add: splitStructure_def Let_def split_pieces orElse_def)
  have r: "snd (splitStructure doc) =
     (case afterSeparator doc of
        None \<Rightarrow> commandPlaceholder
      | Some command \<Rightarrow> if trim command = [] then commandPlaceholder else trim command)"
    by (simp add: splitStructure_def Let_def split_pieces orElse_def split: option.splits)
  from l have ln: "fst (splitStructure doc) \<noteq> []"
    by (simp add: placeholders_nonempty)
  from r have rn: "snd (splitStructure doc) \<noteq> []"
    by (simp add: placeholders_nonempty split: option.splits)
  show ?thesis
    apply (intro conjI)
        apply (rule run)
       apply (rule l)
      apply (rule r)
     apply (rule ln)
    apply (rule rn)
    done
qed

theorem structuring_split_witness:
  "fst (runStructuringStage halfEnv) = Inr (''# Plan'', commandPlaceholder)"
proof -
  have t: "\<not> tokenAt halfEnv (Line 102)" "\<not> tokenAt halfEnv (Line 114)"
    by (simp_all add: halfEnv_def tokenAt_scriptEnv)
  have c: "callLLM halfEnv SStructure = Inr (''# Plan '' @ separator @ ''  '')"
    by code_simp
  have v: "splitStructure (validatedStructure halfEnv (''# Plan '' @ separator @ ''  ''))
      = (''# Plan'', commandPlaceholder)"
    by code_simp
  from structuring_split [of halfEnv "''# Plan '' @ separator @ ''  ''"]
  have "\<not> tokenAt halfEnv (Line 102) \<and> callLLM halfEnv SStructure = Inr (''# Plan '' @ separator @ ''  '')
      \<and> \<not> tokenAt halfEnv (Line 114) \<longrightarrow>
    fst (runStructuringStage halfEnv) =
      Inr (splitStructure (validatedStructure halfEnv (''# Plan '' @ separator @ ''  '')))"
    by (rule conjunct1)
  with t c have "fst (runStructuringStage halfEnv) =
      Inr (splitStructure (validatedStructure halfEnv (''# Plan '' @ separator @ ''  '')))"
    by (elim impE) (intro conjI)
  then show ?thesis unfolding v .
qed

section \<open>The values of the outline map\<close>








section \<open>What each artifact does to the raw reply\<close>




section \<open>The paths of the structure list\<close>

lemma entry_facts:
  "structureEntry indexEntry = Some (''file'', ''./src/index.js/'')"
  "structureEntry gitignoreEntry = Some (''file'', ''gitignore'')"
  "fixGitignore \<lparr> itemType = ''file'', itemPath = normalizePath ''./src/index.js/'' \<rparr>
     = \<lparr> itemType = ''file'', itemPath = ''./src/index.js'' \<rparr>"
  "fixGitignore \<lparr> itemType = ''file'', itemPath = normalizePath ''gitignore'' \<rparr>
     = \<lparr> itemType = ''file'', itemPath = ''.gitignore'' \<rparr>"
  by code_simp+

lemma structureEntry_member:
  assumes "extractJsonString md = Some js" "js \<noteq> []" "JSONparse js = Some (JArray items)"
    and "item \<in> set items" "structureEntry item = Some (t, p)"
  shows "fixGitignore \<lparr> itemType = t, itemPath = normalizePath p \<rparr>
           \<in> set (parseStructureFromJsonMd JSONparse md)"
proof -
  from assms(4,5) have "(t, p) \<in> set (List.map_filter structureEntry items)"
    by (auto simp add: List.map_filter_def intro!: image_eqI [where x = item])
  then have "fixGitignore ((\<lambda>(t, p). \<lparr> itemType = t, itemPath = normalizePath p \<rparr>) (t, p))
      \<in> set (map fixGitignore
          (map (\<lambda>(t, p). \<lparr> itemType = t, itemPath = normalizePath p \<rparr>)
             (List.map_filter structureEntry items)))"
    by (simp add: image_iff) (rule bexI [where x = "(t, p)"], simp_all)
  with assms(1-3) show ?thesis
    by (simp add: parseStructureFromJsonMd_def)
qed

text \<open>
  Claim C5, as amended. When the JSON block of a document parses to an array, an entry
  \<open>{"type": "file", "path": "./src/index.js/"}\<close> of the array yields the path
  \<open>./src/index.js\<close> (the trailing slash is removed, the leading \<open>./\<close> stays), and an entry
  \<open>{"type": "file", "path": "gitignore"}\<close> yields the path \<open>.gitignore\<close>.
\<close>

theorem structure_paths:
  "extractJsonString md = Some js \<and> js \<noteq> [] \<and> JSONparse js = Some (JArray items) \<longrightarrow>
     (indexEntry \<in> set items \<longrightarrow>
        \<lparr> itemType = ''file'', itemPath = ''./src/index.js'' \<rparr>
          \<in> set (parseStructureFromJsonMd JSONparse md)) \<and>
     (gitignoreEntry \<in> set items \<longrightarrow>
        \<lparr> itemType = ''file'', itemPath = ''.gitignore'' \<rparr>
          \<in> set (parseStructureFromJsonMd JSONparse md))"
proof (intro impI conjI)
  assume a: "extractJsonString md = Some js \<and> js \<noteq> [] \<and> JSONparse js = Some (JArray items)"
  {
    assume "indexEntry \<in> set items"
    with a structureEntry_member [of md js JSONparse items indexEntry "''file''" "''./src/index.js/''"]
    show "\<lparr> itemType = ''file'', itemPath = ''./src/index.js'' \<rparr>
          \<in> set (parseStructureFromJsonMd JSONparse md)"
      by (simp add: entry_facts)
  }
  {
    assume "gitignoreEntry \<in> set items"
    with a structureEntry_member [of md js JSONparse items gitignoreEntry "''file''" "''gitignore''"]
    show "\<lparr> itemType = ''file'', itemPath = ''.gitignore'' \<rparr>
          \<in> set (parseStructureFromJsonMd JSONparse md)"
      by (simp add: entry_facts)
  }
qed

theorem structure_paths_witness:
  "\<lparr> itemType = ''file'', itemPath = ''./src/index.js'' \<rparr>
     \<in> set (parseStructureFromJsonMd jsonParse structureDoc) \<and>
   \<lparr> itemType = ''file'', itemPath = ''.gitignore'' \<rparr>
     \<in> set (parseStructureFromJsonMd jsonParse structureDoc)"
proof -
  have 1: "extractJsonString structureDoc = Some structureJson" by code_simp
  have 2: "structureJson \<noteq> []" by code_simp
  have 3: "jsonParse structureJson = Some (JArray [indexEntry, gitignoreEntry])" by code_simp
  from structure_paths [of structureDoc structureJson jsonParse "[indexEntry, gitignoreEntry]"]
    1 2 3
  show ?thesis by simp
qed

text \<open>
  Claim C5 as stated fails on its first example: the extracted path is \<open>./src/index.js\<close>, and
  no item of the list has the path \<open>src/index.js\<close>.
\<close>

theorem leading_dot_slash_kept:
  "parseStructureFromJsonMd jsonParse structureDoc =
     [\<lparr> itemType = ''file'', itemPath = ''./src/index.js'' \<rparr>,
      \<lparr> itemType = ''file'', itemPath = ''.gitignore'' \<rparr>] \<and>
   \<lparr> itemType = ''file'', itemPath = ''src/index.js'' \<rparr>
     \<notin> set (parseStructureFromJsonMd jsonParse structureDoc)"
  by code_simp

section \<open>The artifacts of a completed run\<close>

lemma attemptLLM_not_blank:
  "attemptLLM env s r n = Inr t \<Longrightarrow> trim t \<noteq> []"
proof (induction r arbitrary: n)
  case 0
  then show ?case by (auto split: if_splits attempt.splits)
next
  case (Suc r)
  then show ?case by (auto split: if_splits attempt.splits)
qed

lemma callLLM_not_blank: "callLLM env s = Inr t \<Longrightarrow> trim t \<noteq> []"
  by (auto simp add: callLLM_def simp del: attemptLLM.simps split: if_splits
      dest: attemptLLM_not_blank)

lemma stringify_object_not_empty: "kvs \<noteq> [] \<Longrightarrow> JSON_stringify nts (JObject kvs) \<noteq> []"
  by (simp add: JSON_stringify_def)

lemma modesFromRaw_not_empty:
  assumes "JSON_parse env [] = None"
  shows "roomodesResult (modesFromRaw env md raw) \<noteq> []"
proof (cases "parseModes env (cleanFences (trim raw))")
  case None
  then show ?thesis
    by (simp add: modesFromRaw_def modesFallback_def fallbackModes_def stringify_object_not_empty)
next
  case (Some slugs)
  then have "JSON_parse env (cleanFences (trim raw)) \<noteq> None"
    by (auto simp add: parseModes_def split: option.splits)
  with assms have "cleanFences (trim raw) \<noteq> []" by auto
  with Some show ?thesis by (simp add: modesFromRaw_def)
qed

lemma runModes_not_empty:
  assumes "JSON_parse env [] = None" "fst (runModesGenerationStage env md) = Inr m"
  shows "roomodesResult m \<noteq> []"
proof -
  from assms(2) obtain raw where "m = modesFromRaw env md raw" by (auto dest: runModes_cases)
  with modesFromRaw_not_empty [OF assms(1)] show ?thesis by simp
qed

lemma planFallback_not_empty:
  "fst (planFallback env cmd slugs) = Inr (p, v) \<Longrightarrow> p \<noteq> []"
  by (auto simp add: planFallback_def fallbackPlan_def fallbackPlanText_def run_fst
      split: option.splits)

lemma runPlanAssembly_not_empty:
  assumes "fst (runPlanAssemblyStage env cmd slugs) = Inr (p, v)"
  shows "p \<noteq> []"
  using assms
  by (auto simp add: runPlanAssemblyStage_def run_fst
      split: sum.splits if_splits dest: planFallback_not_empty)

lemma runPlanRefinement_not_empty:
  assumes "fst (runPlanRefinementStage env p) = Inr p'" "p \<noteq> []"
  shows "p' \<noteq> []"
  using assms
  by (auto simp add: runPlanRefinementStage_def run_fst
      split: sum.splits if_splits dest: callLLM_not_blank)

lemma promiseAll5_last:
  "fst (promiseAll5 p1 p2 p3 p4 p5) = Inr (a, b, c, d, e) \<Longrightarrow> fst p5 = Inr e"
  by (auto simp add: promiseAll5_def split: sum.splits)

lemma artifacts_put:
  assumes "p \<noteq> []" "r \<noteq> []"
  shows "putIf ''roo-plan.md'' (Some p) (putIf ''.roomodes'' (Some r) m) ''.roomodes'' = Some r"
    and "putIf ''roo-plan.md'' (Some p) (putIf ''.roomodes'' (Some r) m) ''roo-plan.md'' = Some p"
  using assms by (simp_all add: putIf_def)

lemma Inr_of_case:
  "(case x of Inl e \<Rightarrow> False | Inr r \<Rightarrow> True) \<Longrightarrow> \<exists>r. x = Inr r"
  by (cases x) simp_all

text \<open>
  Claim C1. When \<open>JSON.parse\<close> rejects the empty text, as it does, every run of the engine
  that returns has a non-empty text under \<open>.roomodes\<close> and a non-empty text under
  \<open>roo-plan.md\<close> in its artifact map, whatever the model answers and wherever its calls
  fail.
\<close>

theorem guaranteed_artifacts:
  "JSON_parse env [] = None \<and> fst (runAdvancedReasoningEngine env) = Inr res \<longrightarrow>
     (\<exists>modes plan. artifacts res ''.roomodes'' = Some modes \<and> modes \<noteq> [] \<and>
                   artifacts res ''roo-plan.md'' = Some plan \<and> plan \<noteq> [])"
proof
  assume a: "JSON_parse env [] = None \<and> fst (runAdvancedReasoningEngine env) = Inr res"
  then have run: "fst (runAdvancedReasoningEngine env) = Inr res" and parse: "JSON_parse env [] = None"
    by simp_all
  from run obtain md cmd rules ign ws fg modes plan0 valid plan ana where
    m: "fst (runModesGenerationStage env md) = Inr modes"
    and p0: "fst (runPlanAssemblyStage env cmd (techSpecificSlugs modes)) = Inr (plan0, valid)"
    and p: "fst (if valid \<and> parsedModesSuccessfully modes \<and> roomodesResult modes \<noteq> []
              then runPlanRefinementStage env plan0 else ret plan0) = Inr plan"
    and res: "res = \<lparr> artifacts =
               putIf ''roo-plan.md'' (Some plan)
                 (putIf ''.roomodes'' (Some (roomodesResult modes))
                   (putFootgun fg
                     (putIf ''.clinerules'' ws
                       (putIf ''.rooignore'' ign
                         (putIf ''.clinerules-code'' rules Map.empty))))),
             structureList = parseStructureFromJsonMd (JSON_parse env) md,
             outlines = parseOutlinesFromMd md \<rparr>"
    unfolding runAdvancedReasoningEngine_def
    by (auto simp add: fst_andThen fst_ret split: sum.splits prod.splits dest!: promiseAll5_last)
  from runModes_not_empty [OF parse m] have r: "roomodesResult modes \<noteq> []" .
  from runPlanAssembly_not_empty [OF p0] have "plan0 \<noteq> []" .
  with p have pl: "plan \<noteq> []"
    by (auto simp add: fst_ret split: if_splits dest: runPlanRefinement_not_empty)
  from res artifacts_put [OF pl r] show "\<exists>modes plan. artifacts res ''.roomodes'' = Some modes \<and> modes \<noteq> [] \<and>
                   artifacts res ''roo-plan.md'' = Some plan \<and> plan \<noteq> []"
    using pl r by simp
qed


theorem guaranteed_artifacts_witness:
  "\<exists>res modes plan.
     fst (runAdvancedReasoningEngine pipelineEnv) = Inr res \<and>
     artifacts res ''.roomodes'' = Some modes \<and> modes \<noteq> [] \<and>
     artifacts res ''roo-plan.md'' = Some plan \<and> plan \<noteq> []"
proof -
  have "case fst (runAdvancedReasoningEngine pipelineEnv) of Inl e \<Rightarrow> False | Inr r \<Rightarrow> True"
    by code_simp
  then obtain res where r: "fst (runAdvancedReasoningEngine pipelineEnv) = Inr res"
    by (auto dest: Inr_of_case)
  have p: "JSON_parse pipelineEnv [] = None" by code_simp
  from guaranteed_artifacts [of pipelineEnv res] p r show ?thesis by blast
qed

section \<open>The splice of stage 3\<close>

subsection \<open>The section expression\<close>








subsection \<open>Steps of the matcher\<close>










lemma sectionSpan_prefix: "prefix (sectionSpan r) r"
  by (simp add: sectionSpan_def take_is_prefix split: option.splits)






lemma indexOf_None_iff:
  "indexOf s p = None \<longleftrightarrow> (\<forall>j\<le>length s. \<not> prefix p (drop j s))"
proof (induction s)
  case Nil
  show ?case by auto
next
  case (Cons c cs)
  show ?case
  proof (cases "prefix p (c # cs)")
    case True
    then have "\<exists>j\<le>length (c # cs). prefix p (drop j (c # cs))"
      by (intro exI [of _ 0]) simp
    with True show ?thesis by (auto simp del: Cons_prefix_Cons)
  next
    case False
    have "(\<forall>j\<le>length cs. \<not> prefix p (drop j cs)) =
        (\<forall>j\<le>length (c # cs). \<not> prefix p (drop j (c # cs)))"
    proof
      assume a: "\<forall>j\<le>length cs. \<not> prefix p (drop j cs)"
      show "\<forall>j\<le>length (c # cs). \<not> prefix p (drop j (c # cs))"
      proof (intro allI impI)
        fix j assume "j \<le> length (c # cs)"
        with a False show "\<not> prefix p (drop j (c # cs))" by (cases j) simp_all
      qed
    next
      assume a: "\<forall>j\<le>length (c # cs). \<not> prefix p (drop j (c # cs))"
      show "\<forall>j\<le>length cs. \<not> prefix p (drop j cs)"
      proof (intro allI impI)
        fix j assume "j \<le> length cs"
        then have "Suc j \<le> length (c # cs)" by simp
        with a have "\<not> prefix p (drop (Suc j) (c # cs))" by blast
        then show "\<not> prefix p (drop j cs)" by simp
      qed
    qed
    with False Cons.IH show ?thesis by (simp del: Cons_prefix_Cons)
  qed
qed






subsection \<open>The fence expression\<close>










lemma blankTail_Some:
  "blankTail r = Some n \<Longrightarrow>
     n \<le> length r \<and> (\<forall>c\<in>set (take n r). isWhiteSpace c) \<and>
     (drop n r = [] \<or> isLineTerminator (hd (drop n r)))"
proof (induction r arbitrary: n)
  case Nil
  then show ?case by simp
next
  case (Cons c cs)
  show ?case
  proof (cases "blankTail cs")
    case None
    with Cons.prems show ?thesis by (auto split: if_splits)
  next
    case (Some n')
    with Cons.prems have n: "n = Suc n'" "isWhiteSpace c" by (auto split: if_splits)
    from Cons.IH [OF Some] n show ?thesis by simp
  qed
qed

lemma blankTail_None:
  "blankTail r = None \<Longrightarrow>
     dropWhile (\<lambda>c. isWhiteSpace c \<and> \<not> isLineTerminator c) r \<noteq> [] \<and>
     \<not> isWhiteSpace (hd (dropWhile (\<lambda>c. isWhiteSpace c \<and> \<not> isLineTerminator c) r))"
proof (induction r)
  case Nil
  then show ?case by simp
next
  case (Cons c cs)
  then show ?case by (auto split: if_splits option.splits)
qed


lemma firstClosingFence_None:
  "firstClosingFence md = None \<Longrightarrow> \<forall>i\<le>length md. closingFenceAt (drop i md) = None"
proof (induction md)
  case Nil
  show ?case by (simp add: closingFenceAt_def)
next
  case (Cons c cs)
  from Cons.prems have n: "closingFenceAt (c # cs) = None" "firstClosingFence cs = None"
    by (auto split: option.splits)
  from Cons.IH [OF n(2)] have ih: "\<forall>i\<le>length cs. closingFenceAt (drop i cs) = None" .
  show ?case
  proof (intro allI impI)
    fix i assume "i \<le> length (c # cs)"
    with n(1) ih show "closingFenceAt (drop i (c # cs)) = None" by (cases i) simp_all
  qed
qed

subsection \<open>The splice\<close>









end
